theory Spec2Isabelle
  imports Complex_Main "HOL-Library.AList"
begin

section \<open>Python values used by \<open>app.py\<close>\<close>

text \<open>
  The two functions of \<open>src/app.py\<close> that carry decision logic are
  \<open>render_recommendations\<close> (lines 109-187) and \<open>export_results\<close> (lines 191-203).
  They work on Python strings, floats, lists and dictionaries. The other two functions,
  \<open>main\<close> and \<open>render_enhanced_sidebar\<close>, lay out the page and call into modules that are
  not part of \<open>app.py\<close>; they are not modelled.

  A Python \<open>str\<close> is modelled as a \<open>string\<close> holding the UTF-8 bytes of the text, so
  the pictographs that open most messages are written as their bytes. The only string
  operations of the source are equality, concatenation and the substring test \<open>in\<close>
  with an ASCII needle; on well-formed UTF-8 these agree with the operations on code points.

  A Python \<open>float\<close> is the real number it denotes, or one of the three special values.
  The numeric literals the source compares against (6.5, 8.5, 300, 2.0) are exact as
  floats, and Python compares an \<open>int\<close> with a \<open>float\<close> exactly, so the comparisons are
  those of the reals. Negative zero is not represented.
\<close>

datatype pyfloat = Finite real | PosInf | NegInf | NaN

datatype pyval = PyNone | PyInt int | PyFloat pyfloat | PyStr string

datatype error =
    KeyError string
  | TypeError
  | ValueError
  | IndexError
  | AttributeError

text \<open>A \<open>dict\<close> keeps its keys in insertion order: an association list.\<close>

type_synonym pydict = "(string \<times> pyval) list"

text \<open>\<open>a < b\<close> and \<open>a > b\<close> on floats: every comparison with \<open>nan\<close> is false.\<close>

fun float_lt :: "pyfloat \<Rightarrow> pyfloat \<Rightarrow> bool" where
  "float_lt NaN _ = False"
| "float_lt _ NaN = False"
| "float_lt (Finite a) (Finite b) = (a < b)"
| "float_lt (Finite a) PosInf = True"
| "float_lt (Finite a) NegInf = False"
| "float_lt PosInf _ = False"
| "float_lt NegInf NegInf = False"
| "float_lt NegInf _ = True"

definition float_gt :: "pyfloat \<Rightarrow> pyfloat \<Rightarrow> bool" where
  "float_gt a b = float_lt b a"

text \<open>
  The number a value stands for in a comparison with a numeric literal: an \<open>int\<close> is
  compared exactly, \<open>None\<close> and a \<open>str\<close> raise \<open>TypeError\<close>.
\<close>

fun numeric_value :: "pyval \<Rightarrow> error + pyfloat" where
  "numeric_value (PyInt i) = Inr (Finite (real_of_int i))"
| "numeric_value (PyFloat f) = Inr f"
| "numeric_value PyNone = Inl TypeError"
| "numeric_value (PyStr s) = Inl TypeError"

text \<open>\<open>v < c\<close> and \<open>v > c\<close> for a numeric literal \<open>c\<close>.\<close>

definition py_lt_num :: "pyval \<Rightarrow> real \<Rightarrow> error + bool" where
  "py_lt_num v c =
     (case numeric_value v of Inl e \<Rightarrow> Inl e | Inr f \<Rightarrow> Inr (float_lt f (Finite c)))"

definition py_gt_num :: "pyval \<Rightarrow> real \<Rightarrow> error + bool" where
  "py_gt_num v c =
     (case numeric_value v of Inl e \<Rightarrow> Inl e | Inr f \<Rightarrow> Inr (float_gt f (Finite c)))"

text \<open>\<open>v == n\<close> for an integer literal \<open>n\<close>; never raises.\<close>

fun py_eq_int :: "pyval \<Rightarrow> int \<Rightarrow> bool" where
  "py_eq_int (PyInt i) n = (i = n)"
| "py_eq_int (PyFloat (Finite r)) n = (r = real_of_int n)"
| "py_eq_int (PyFloat _) n = False"
| "py_eq_int PyNone n = False"
| "py_eq_int (PyStr s) n = False"

text \<open>\<open>d[k]\<close>: a missing key raises \<open>KeyError\<close>.\<close>

definition py_getitem :: "pydict \<Rightarrow> string \<Rightarrow> error + pyval" where
  "py_getitem d k = (case map_of d k of None \<Rightarrow> Inl (KeyError k) | Some v \<Rightarrow> Inr v)"

text \<open>\<open>needle in hay\<close> on strings: \<open>needle\<close> occurs as a contiguous block of \<open>hay\<close>.\<close>

fun startswith :: "string \<Rightarrow> string \<Rightarrow> bool" where
  "startswith hay [] = True"
| "startswith [] (p # ps) = False"
| "startswith (c # cs) (p # ps) = (c = p \<and> startswith cs ps)"

fun str_contains :: "string \<Rightarrow> string \<Rightarrow> bool" where
  "str_contains needle [] = (needle = [])"
| "str_contains needle (c # cs) = (startswith (c # cs) needle \<or> str_contains needle cs)"

text \<open>\<open>any(name in risk for risk in risk_factors)\<close>\<close>

definition any_risk :: "string \<Rightarrow> string list \<Rightarrow> bool" where
  "any_risk name risk_factors = list_ex (str_contains name) risk_factors"

section \<open>The Streamlit calls a function makes\<close>

text \<open>
  \<open>render_recommendations\<close> returns nothing: what it does is the sequence of Streamlit
  calls it makes. The page is the log of these calls, threaded through the function.
\<close>

datatype st_call =
    StError string
  | StSuccess string
  | StWrite string
  | StDataframe "(string \<times> string list) list"
  | StExpander string "st_call list"

type_synonym st_log = "st_call list"

definition st_error :: "string \<Rightarrow> st_log \<Rightarrow> st_log" where
  "st_error msg page = page @ [StError msg]"

definition st_success :: "string \<Rightarrow> st_log \<Rightarrow> st_log" where
  "st_success msg page = page @ [StSuccess msg]"

definition st_write :: "string \<Rightarrow> st_log \<Rightarrow> st_log" where
  "st_write msg page = page @ [StWrite msg]"

section \<open>The texts of \<open>render_recommendations\<close>\<close>

definition immediate_actions_header :: string where
  "immediate_actions_header =
     [CHR 0xF0, CHR 0x9F, CHR 0x9A, CHR 0xA8] @ '' **Immediate Actions Required:**''"

definition rec_do_not_consume :: string where
  "rec_do_not_consume =
     [CHR 0xF0, CHR 0x9F, CHR 0x9B, CHR 0x91] @ '' **Do not consume this water** until proper treatment''"

definition rec_professional_testing :: string where
  "rec_professional_testing =
     [CHR 0xF0, CHR 0x9F, CHR 0x94, CHR 0xAC] @ '' Get professional water testing from a certified laboratory''"

definition rec_bottled_water :: string where
  "rec_bottled_water =
     [CHR 0xF0, CHR 0x9F, CHR 0x92, CHR 0xA7] @ '' Use bottled water or properly treated water for drinking and cooking''"

definition rec_treatment_systems :: string where
  "rec_treatment_systems =
     [CHR 0xF0, CHR 0x9F, CHR 0x8F, CHR 0xA0] @ '' Consider installing appropriate water treatment systems''"

definition rec_ph_low :: string where
  "rec_ph_low =
     [CHR 0xF0, CHR 0x9F, CHR 0xA7, CHR 0xAA] @ '' **pH too low**: Consider lime treatment or pH adjustment systems''"

definition rec_ph_high :: string where
  "rec_ph_high =
     [CHR 0xF0, CHR 0x9F, CHR 0xA7, CHR 0xAA] @ '' **pH too high**: Consider acid neutralization systems''"

definition rec_chloramines :: string where
  "rec_chloramines =
     [CHR 0xE2, CHR 0x98, CHR 0xA3, CHR 0xEF, CHR 0xB8, CHR 0x8F] @ '' **High chloramines**: Install activated carbon filtration''"

definition rec_trihalomethanes :: string where
  "rec_trihalomethanes =
     [CHR 0xE2, CHR 0x9A, CHR 0x97, CHR 0xEF, CHR 0xB8, CHR 0x8F] @ '' **High trihalomethanes**: Use granular activated carbon or reverse osmosis''"

definition rec_turbidity :: string where
  "rec_turbidity =
     [CHR 0xF0, CHR 0x9F, CHR 0x8C, CHR 0x8A] @ '' **High turbidity**: Install sediment filtration and UV disinfection''"

definition rec_solids :: string where
  "rec_solids =
     [CHR 0xF0, CHR 0x9F, CHR 0xA7, CHR 0x82] @ '' **High TDS**: Consider reverse osmosis or distillation systems''"

definition water_safe_header :: string where
  "water_safe_header =
     [CHR 0xE2, CHR 0x9C, CHR 0x85] @ '' **Water appears safe for consumption**''"

definition tip_regular_monitoring :: string where
  "tip_regular_monitoring =
     [CHR 0xF0, CHR 0x9F, CHR 0x94, CHR 0x84] @ '' **Regular monitoring**: Test water quality periodically''"

definition tip_system_maintenance :: string where
  "tip_system_maintenance =
     [CHR 0xF0, CHR 0x9F, CHR 0xA7, CHR 0xBD] @ '' **System maintenance**: Clean and maintain any existing filtration systems''"

definition tip_plumbing_check :: string where
  "tip_plumbing_check =
     [CHR 0xF0, CHR 0x9F, CHR 0x8F, CHR 0xA0] @ '' **Plumbing check**: Ensure pipes and storage tanks are clean''"

definition tip_keep_records :: string where
  "tip_keep_records =
     [CHR 0xF0, CHR 0x9F, CHR 0x93, CHR 0x8A] @ '' **Keep records**: Document water quality test results over time''"

definition tip_hardness :: string where
  "tip_hardness =
     [CHR 0xF0, CHR 0x9F, CHR 0xAA, CHR 0xA8] @ '' **Water hardness**: Consider water softening for appliance longevity''"

definition tip_chloramines :: string where
  "tip_chloramines =
     [CHR 0xF0, CHR 0x9F, CHR 0x92, CHR 0xA8] @ '' **Chloramine levels**: Let water sit or use carbon filtration to reduce taste/odor''"

definition maintenance_header :: string where
  "maintenance_header = ''**Maintenance Recommendations:**''"

text \<open>The f-string of both loops: a bullet, a space, the entry.\<close>

definition bullet :: "string \<Rightarrow> string" where
  "bullet entry = [CHR 0xE2, CHR 0x80, CHR 0xA2] @ '' '' @ entry"

definition guide_label :: string where
  "guide_label =
     [CHR 0xF0, CHR 0x9F, CHR 0x9B, CHR 0xA0, CHR 0xEF, CHR 0xB8, CHR 0x8F] @ '' Water Treatment Technologies Guide''"

definition treatment_df :: "(string \<times> string list) list" where
  "treatment_df =
     [(''Contaminant'',
        [''High/Low pH'', ''Chloramines'', ''Trihalomethanes'', ''High TDS'',
         ''Turbidity'', ''Bacteria/Viruses'', ''Heavy Metals'', ''Bad Taste/Odor'']),
      (''Primary Treatment'',
        [''pH Adjustment Systems'', ''Activated Carbon'', ''Activated Carbon/RO'',
         ''Reverse Osmosis'', ''Sediment Filtration'', ''UV Disinfection'',
         ''Reverse Osmosis'', ''Activated Carbon'']),
      (''Alternative Treatment'',
        [''Ion Exchange'', ''Catalytic Carbon'', ''Distillation'',
         ''Distillation'', ''Coagulation/Flocculation'', ''Chlorination'',
         ''Ion Exchange'', ''Aeration'']),
      (''Approximate Cost'',
        [''$200-800'', ''$50-300'', ''$100-500'', ''$200-1000'',
         ''$30-200'', ''$100-400'', ''$200-1000'', ''$50-300''])]"

section \<open>\<open>render_recommendations\<close>\<close>

text \<open>
  The unsafe branch builds the list \<open>recommendations\<close> (lines 115-139): the four opening
  entries, then one \<open>if\<close> after the other, each appending to the list built so far.
  \<open>input_values['ph']\<close> is read only under the pH gate, and again in the \<open>elif\<close>.
\<close>

definition urgent_actions :: "string list" where
  "urgent_actions =
     [rec_do_not_consume, rec_professional_testing, rec_bottled_water, rec_treatment_systems]"

definition append_ph :: "string list \<Rightarrow> pydict \<Rightarrow> string list \<Rightarrow> error + string list" where
  "append_ph risk_factors input_values recommendations =
     (if any_risk ''pH'' risk_factors then
        (case py_getitem input_values ''ph'' of
           Inl e \<Rightarrow> Inl e
         | Inr ph \<Rightarrow>
             (case py_lt_num ph 6.5 of
                Inl e \<Rightarrow> Inl e
              | Inr True \<Rightarrow> Inr (recommendations @ [rec_ph_low])
              | Inr False \<Rightarrow>
                  (case py_getitem input_values ''ph'' of
                     Inl e \<Rightarrow> Inl e
                   | Inr ph2 \<Rightarrow>
                       (case py_gt_num ph2 8.5 of
                          Inl e \<Rightarrow> Inl e
                        | Inr True \<Rightarrow> Inr (recommendations @ [rec_ph_high])
                        | Inr False \<Rightarrow> Inr recommendations))))
      else Inr recommendations)"

definition append_if_risk :: "string \<Rightarrow> string \<Rightarrow> string list \<Rightarrow> string list \<Rightarrow> string list" where
  "append_if_risk name entry risk_factors recommendations =
     (if any_risk name risk_factors then recommendations @ [entry] else recommendations)"

definition unsafe_recommendations :: "string list \<Rightarrow> pydict \<Rightarrow> error + string list" where
  "unsafe_recommendations risk_factors input_values =
     (case append_ph risk_factors input_values urgent_actions of
        Inl e \<Rightarrow> Inl e
      | Inr r1 \<Rightarrow>
          Inr (append_if_risk ''Solids'' rec_solids risk_factors
                (append_if_risk ''Turbidity'' rec_turbidity risk_factors
                  (append_if_risk ''Trihalomethanes'' rec_trihalomethanes risk_factors
                    (append_if_risk ''Chloramines'' rec_chloramines risk_factors r1)))))"

text \<open>
  The safe branch builds \<open>maintenance_tips\<close> (lines 147-159): the four opening tips,
  then the two gated ones. Both parameters are always read.
\<close>

definition opening_tips :: "string list" where
  "opening_tips =
     [tip_regular_monitoring, tip_system_maintenance, tip_plumbing_check, tip_keep_records]"

definition maintenance_tips :: "pydict \<Rightarrow> error + string list" where
  "maintenance_tips input_values =
     (case py_getitem input_values ''Hardness'' of
        Inl e \<Rightarrow> Inl e
      | Inr hardness \<Rightarrow>
          (case py_gt_num hardness 300 of
             Inl e \<Rightarrow> Inl e
           | Inr b1 \<Rightarrow>
               (let t1 = (if b1 then opening_tips @ [tip_hardness] else opening_tips) in
                case py_getitem input_values ''Chloramines'' of
                  Inl e \<Rightarrow> Inl e
                | Inr chloramines \<Rightarrow>
                    (case py_gt_num chloramines 2.0 of
                       Inl e \<Rightarrow> Inl e
                     | Inr b2 \<Rightarrow> Inr (if b2 then t1 @ [tip_chloramines] else t1)))))"

text \<open>The two \<open>for\<close> loops (lines 141-142 and 162-163): one \<open>st.write\<close> per entry.\<close>

fun write_bullets :: "string list \<Rightarrow> st_log \<Rightarrow> st_log" where
  "write_bullets [] page = page"
| "write_bullets (entry # entries) page = write_bullets entries (st_write (bullet entry) page)"

text \<open>The expander after both branches (lines 166-187).\<close>

definition treatment_guide :: "st_log \<Rightarrow> st_log" where
  "treatment_guide page = page @ [StExpander guide_label [StDataframe treatment_df]]"

text \<open>
  The function: the page after the call, and the exception that ended it, if one did.
  An exception leaves on the page what was written before it was raised.
\<close>

definition render_recommendations ::
  "pyval \<Rightarrow> string list \<Rightarrow> pydict \<Rightarrow> st_log \<Rightarrow> st_log \<times> error option" where
  "render_recommendations prediction risk_factors input_values page =
     (if py_eq_int prediction 0 then
        (let page1 = st_error immediate_actions_header page in
         case unsafe_recommendations risk_factors input_values of
           Inl e \<Rightarrow> (page1, Some e)
         | Inr recommendations \<Rightarrow>
             (treatment_guide (write_bullets recommendations page1), None))
      else
        (let page1 = st_success water_safe_header page in
         case maintenance_tips input_values of
           Inl e \<Rightarrow> (page1, Some e)
         | Inr tips \<Rightarrow>
             (treatment_guide (write_bullets tips (st_write maintenance_header page1)), None)))"

section \<open>\<open>export_results\<close>\<close>

text \<open>
  \<open>max(probability)\<close>: the builtin keeps the first item and replaces it by a later
  one that compares greater; an empty argument raises \<open>ValueError\<close>.
\<close>

fun max_from :: "pyfloat \<Rightarrow> pyfloat list \<Rightarrow> pyfloat" where
  "max_from m [] = m"
| "max_from m (x # xs) = max_from (if float_gt x m then x else m) xs"

fun py_max :: "pyfloat list \<Rightarrow> error + pyfloat" where
  "py_max [] = Inl ValueError"
| "py_max (x # xs) = Inr (max_from x xs)"

text \<open>\<open>xs[i]\<close> for a literal index \<open>i \<ge> 0\<close>.\<close>

definition py_index :: "'a list \<Rightarrow> nat \<Rightarrow> error + 'a" where
  "py_index xs i = (if i < length xs then Inr (xs ! i) else Inl IndexError)"

text \<open>
  \<open>a * b\<close> on floats. The product of two finite floats is the exact product rounded
  to a double; the rounding \<open>fl\<close> (to nearest, ties to even, an infinity past the
  largest double) is a parameter of the model, and nothing is assumed about it.
\<close>

fun float_mul :: "(real \<Rightarrow> pyfloat) \<Rightarrow> pyfloat \<Rightarrow> pyfloat \<Rightarrow> pyfloat" where
  "float_mul fl NaN _ = NaN"
| "float_mul fl _ NaN = NaN"
| "float_mul fl (Finite a) (Finite b) = fl (a * b)"
| "float_mul fl (Finite a) PosInf = (if a = 0 then NaN else if 0 < a then PosInf else NegInf)"
| "float_mul fl (Finite a) NegInf = (if a = 0 then NaN else if 0 < a then NegInf else PosInf)"
| "float_mul fl PosInf (Finite b) = (if b = 0 then NaN else if 0 < b then PosInf else NegInf)"
| "float_mul fl NegInf (Finite b) = (if b = 0 then NaN else if 0 < b then NegInf else PosInf)"
| "float_mul fl PosInf PosInf = PosInf"
| "float_mul fl PosInf NegInf = NegInf"
| "float_mul fl NegInf PosInf = NegInf"
| "float_mul fl NegInf NegInf = PosInf"

text \<open>
  The format specification \<open>.kf\<close>: the exact value of the float, rounded to \<open>k\<close>
  decimals with ties to even, the sign first, the fraction padded to \<open>k\<close> digits.
\<close>

definition digit_char :: "nat \<Rightarrow> char" where
  "digit_char d = ''0123456789'' ! (d mod 10)"

fun dec_digits :: "nat \<Rightarrow> string" where
  "dec_digits n = (if n < 10 then [digit_char n] else dec_digits (n div 10) @ [digit_char n])"

declare dec_digits.simps [simp del]

primrec frac_digits :: "nat \<Rightarrow> nat \<Rightarrow> string" where
  "frac_digits 0 n = []"
| "frac_digits (Suc k) n = frac_digits k (n div 10) @ [digit_char n]"

definition round_half_even :: "real \<Rightarrow> int" where
  "round_half_even x =
     (let f = \<lfloor>x\<rfloor>; d = x - of_int f in
      if d < 1 / 2 then f else if 1 / 2 < d then f + 1 else if even f then f else f + 1)"

definition format_fixed :: "nat \<Rightarrow> real \<Rightarrow> string" where
  "format_fixed k x =
     (let n = nat (round_half_even (\<bar>x\<bar> * 10 ^ k));
          body = dec_digits (n div 10 ^ k) @ (if k = 0 then [] else ''.'' @ frac_digits k n)
      in if x < 0 then ''-'' @ body else body)"

fun format_f :: "nat \<Rightarrow> pyfloat \<Rightarrow> string" where
  "format_f k (Finite x) = format_fixed k x"
| "format_f k PosInf = ''inf''"
| "format_f k NegInf = ''-inf''"
| "format_f k NaN = ''nan''"

text \<open>\<open>sep.join(xs)\<close>\<close>

fun py_join :: "string \<Rightarrow> string list \<Rightarrow> string" where
  "py_join sep [] = []"
| "py_join sep [x] = x"
| "py_join sep (x # y # ys) = x @ sep @ py_join sep (y # ys)"

text \<open>
  \<open>d.update(other)\<close>: every item of \<open>other\<close>, in its order, is stored in \<open>d\<close>; a key
  already there keeps its place and takes the new value, a new key goes last.
\<close>

definition dict_update :: "pydict \<Rightarrow> pydict \<Rightarrow> pydict" where
  "dict_update d other = fold (\<lambda>(k, v) acc. AList.update k v acc) other d"

text \<open>
  The dictionary literal of lines 194-202, evaluated item by item. \<open>timestamp\<close> is what
  \<open>pd.Timestamp.now().strftime('%Y-%m-%d %H:%M:%S')\<close> returns: it comes from the clock.
\<close>

definition derived_fields ::
  "(real \<Rightarrow> pyfloat) \<Rightarrow> string \<Rightarrow> pyval \<Rightarrow> pyfloat list \<Rightarrow> string list \<Rightarrow> error + pydict" where
  "derived_fields fl timestamp prediction probability risk_factors =
     (case py_max probability of
        Inl e \<Rightarrow> Inl e
      | Inr m \<Rightarrow>
          (case py_index probability 1 of
             Inl e \<Rightarrow> Inl e
           | Inr p1 \<Rightarrow>
               (case py_index probability 0 of
                  Inl e \<Rightarrow> Inl e
                | Inr p0 \<Rightarrow>
                    Inr [(''Prediction'', PyStr (if py_eq_int prediction 1 then ''Safe'' else ''Unsafe'')),
                         (''Confidence'', PyStr (format_f 1 (float_mul fl m (Finite 100)) @ ''%'')),
                         (''Safe_Probability'', PyStr (format_f 3 p1)),
                         (''Unsafe_Probability'', PyStr (format_f 3 p0)),
                         (''Risk_Factors_Count'', PyInt (int (length risk_factors))),
                         (''Risk_Factors'',
                            PyStr (if risk_factors \<noteq> [] then py_join ''; '' risk_factors else ''None'')),
                         (''Timestamp'', PyStr timestamp)])))"

text \<open>
  \<open>input_values\<close> is a reference to a dictionary object that the caller still holds,
  and \<open>update\<close> changes a dictionary in place, so the dictionaries live in a store:
  a list of objects, an address is an index. \<open>input_values.copy()\<close> allocates a new
  object with the same items; \<open>update\<close> writes to that one. The data frame of one row is
  returned by value.
\<close>

type_synonym heap = "pydict list"

definition heap_get :: "heap \<Rightarrow> nat \<Rightarrow> pydict option" where
  "heap_get h a = (if a < length h then Some (h ! a) else None)"

definition export_results ::
  "(real \<Rightarrow> pyfloat) \<Rightarrow> string \<Rightarrow> heap \<Rightarrow> nat \<Rightarrow> pyval \<Rightarrow> pyfloat list \<Rightarrow> string list
     \<Rightarrow> heap \<times> (error + pydict list)" where
  "export_results fl timestamp h input_values prediction probability risk_factors =
     (case heap_get h input_values of
        None \<Rightarrow> (h, Inl AttributeError)
      | Some d \<Rightarrow>
          (let results_dict = length h;
               h1 = h @ [d]
           in case derived_fields fl timestamp prediction probability risk_factors of
                Inl e \<Rightarrow> (h1, Inl e)
              | Inr fields \<Rightarrow>
                  (let h2 = h1[results_dict := dict_update (h1 ! results_dict) fields]
                   in (h2, Inr [h2 ! results_dict]))))"

text \<open>
  Modelled from the spec: the nine field names of a parameter set (section 3 of the
  specification). The source reads them from \<open>feature_names\<close>, which the model loader
  returns; of the nine, \<open>app.py\<close> itself names \<open>ph\<close>, \<open>Hardness\<close> and \<open>Chloramines\<close>.
\<close>

definition parameter_fields :: "string list" where
  "parameter_fields =
     [''ph'', ''Hardness'', ''Solids'', ''Chloramines'', ''Sulfate'', ''Conductivity'',
      ''Organic_carbon'', ''Trihalomethanes'', ''Turbidity'']"

section \<open>What a page shows\<close>

text \<open>The strings written by \<open>st.write\<close>, in order.\<close>

fun written :: "st_log \<Rightarrow> string list" where
  "written [] = []"
| "written (StWrite s # calls) = s # written calls"
| "written (c # calls) = written calls"

text \<open>
  The two tracks: every entry the unsafe branch can append to \<open>recommendations\<close>, and
  every entry the safe branch can append to \<open>maintenance_tips\<close>.
\<close>

definition urgent_track :: "string list" where
  "urgent_track = urgent_actions @
     [rec_ph_low, rec_ph_high, rec_chloramines, rec_trihalomethanes, rec_turbidity, rec_solids]"

definition maintenance_track :: "string list" where
  "maintenance_track = opening_tips @ [tip_hardness, tip_chloramines]"

text \<open>
  The number a run of decimal digits denotes, to say what a formatted number is worth.
\<close>

definition digit_value :: "char \<Rightarrow> nat" where
  "digit_value c = of_char c - 48"

definition digits_value :: "string \<Rightarrow> nat" where
  "digits_value s = foldl (\<lambda>acc c. 10 * acc + digit_value c) 0 s"

section \<open>Properties\<close>

subsection \<open>The model of the Python operations\<close>

text \<open>The substring test finds exactly the contiguous occurrences.\<close>

lemma startswith_iff: "startswith hay p \<longleftrightarrow> (\<exists>s. hay = p @ s)"
  by (induction hay p rule: startswith.induct) auto

lemma str_contains_iff: "str_contains needle hay \<longleftrightarrow> (\<exists>p s. hay = p @ needle @ s)"
proof (induction hay)
  case Nil
  show ?case by auto
next
  case (Cons c cs)
  show ?case
  proof
    assume "str_contains needle (c # cs)"
    then consider "startswith (c # cs) needle" | "str_contains needle cs" by auto
    then show "\<exists>p s. c # cs = p @ needle @ s"
    proof cases
      case 1
      then obtain s where "c # cs = needle @ s" by (auto simp: startswith_iff)
      then have "c # cs = [] @ needle @ s" by simp
      then show ?thesis by blast
    next
      case 2
      with Cons.IH obtain p s where "cs = p @ needle @ s" by blast
      then have "c # cs = (c # p) @ needle @ s" by simp
      then show ?thesis by blast
    qed
  next
    assume "\<exists>p s. c # cs = p @ needle @ s"
    then obtain p s where ps: "c # cs = p @ needle @ s" by blast
    show "str_contains needle (c # cs)"
    proof (cases p)
      case Nil
      with ps have "startswith (c # cs) needle" by (auto simp: startswith_iff)
      then show ?thesis by simp
    next
      case (Cons a p')
      with ps have "cs = p' @ needle @ s" by simp
      with Cons.IH have "str_contains needle cs" by blast
      then show ?thesis by simp
    qed
  qed
qed

lemma any_risk_iff: "any_risk name rf \<longleftrightarrow> (\<exists>r \<in> set rf. \<exists>p s. r = p @ name @ s)"
  by (simp add: any_risk_def list_ex_iff str_contains_iff)

text \<open>On two finite floats the builtin \<open>max\<close> is the greater one.\<close>

lemma max_from_finite_pair:
  "max_from (Finite a) [Finite b] = Finite (max a b)"
  by (simp add: float_gt_def max_def)

lemma py_max_pair: "py_max [p0, p1] = Inr (if float_gt p1 p0 then p1 else p0)"
  by simp

lemma py_join_concat: "py_join sep (x # xs) = x @ concat (map ((@) sep) xs)"
  by (induction xs arbitrary: x) simp_all

lemma map_of_dict_update: "map_of (dict_update d other) = map_of d ++ map_of (rev other)"
  unfolding dict_update_def
proof (induction other arbitrary: d)
  case Nil
  show ?case by simp
next
  case (Cons kv other)
  obtain k v where kv: "kv = (k, v)" by (cases kv)
  have "map_of (fold (\<lambda>(k, v). AList.update k v) other (AList.update k v d))
          = map_of (AList.update k v d) ++ map_of (rev other)"
    by (rule Cons.IH)
  also have "\<dots> = map_of d ++ map_of (rev other @ [(k, v)])"
    by (simp add: update_conv' map_add_upd_left fun_eq_iff map_add_def split: option.splits)
  finally show ?case by (simp add: kv)
qed

lemma dec_digits_small: "n < 10 \<Longrightarrow> dec_digits n = [digit_char n]"
  by (simp add: dec_digits.simps)

lemma dec_digits_large: "10 \<le> n \<Longrightarrow> dec_digits n = dec_digits (n div 10) @ [digit_char n]"
  by (subst dec_digits.simps) simp

lemma frac_digits_numeral:
  "frac_digits (numeral k) n = frac_digits (pred_numeral k) (n div 10) @ [digit_char n]"
  by (simp only: numeral_eq_Suc [of k] frac_digits.simps)

lemmas format_eval =
  format_fixed_def round_half_even_def digit_char_def dec_digits_small dec_digits_large
  frac_digits_numeral

text \<open>
  The format \<open>.kf\<close> of a non-negative float has exactly \<open>k\<close> digits after the point and
  denotes a number within half a unit of the last digit of the float.
\<close>

lemma digit_value_char: "digit_value (digit_char d) = d mod 10"
proof -
  define m where "m = d mod 10"
  have "m < 10" by (simp add: m_def)
  then have "m = 0 \<or> m = 1 \<or> m = 2 \<or> m = 3 \<or> m = 4 \<or> m = 5 \<or> m = 6 \<or> m = 7 \<or> m = 8 \<or> m = 9"
    by arith
  then have "digit_value (''0123456789'' ! m) = m"
    by (elim disjE) (simp_all add: digit_value_def)
  then show ?thesis by (simp add: digit_char_def m_def)
qed

lemma digits_value_snoc: "digits_value (s @ [c]) = 10 * digits_value s + digit_value c"
  by (simp add: digits_value_def)

lemma dec_digits_value: "digits_value (dec_digits n) = n"
proof (induction n rule: dec_digits.induct)
  case (1 n)
  show ?case
  proof (cases "n < 10")
    case True
    then show ?thesis
      by (simp add: dec_digits_small digits_value_def digit_value_char)
  next
    case False
    with 1 have "digits_value (dec_digits (n div 10)) = n div 10" by simp
    with False show ?thesis
      by (simp add: dec_digits_large digits_value_snoc digit_value_char)
  qed
qed

lemma frac_digits_length: "length (frac_digits k n) = k"
  by (induction k arbitrary: n) simp_all

lemma frac_digits_value: "digits_value (frac_digits k n) = n mod 10 ^ k"
proof (induction k arbitrary: n)
  case 0
  show ?case by (simp add: digits_value_def)
next
  case (Suc k)
  have "n mod (10 * 10 ^ k) = 10 * (n div 10 mod 10 ^ k) + n mod 10"
    by (simp add: mod_mult2_eq)
  with Suc show ?case
    by (simp add: digits_value_snoc digit_value_char)
qed

lemma round_half_even_near: "\<bar>real_of_int (round_half_even y) - y\<bar> \<le> 1 / 2"
  unfolding round_half_even_def Let_def by (auto; linarith)

lemma round_half_even_nonneg: "0 \<le> y \<Longrightarrow> 0 \<le> round_half_even y"
  unfolding round_half_even_def Let_def by (auto; linarith)

lemma format_fixed_precision:
  assumes "0 \<le> x" "0 < k"
  shows "\<exists>whole frac. format_fixed k x = whole @ ''.'' @ frac \<and> length frac = k
           \<and> \<bar>real (digits_value whole) + real (digits_value frac) / 10 ^ k - x\<bar> \<le> 1 / (2 * 10 ^ k)"
proof -
  define n where "n = nat (round_half_even (\<bar>x\<bar> * 10 ^ k))"
  have nn: "0 \<le> round_half_even (x * 10 ^ k)"
    using assms(1) by (intro round_half_even_nonneg) simp
  have f: "format_fixed k x = dec_digits (n div 10 ^ k) @ ''.'' @ frac_digits k n"
    using assms by (simp add: format_fixed_def n_def Let_def)
  have "real (n div 10 ^ k) + real (n mod 10 ^ k) / 10 ^ k = real n / 10 ^ k"
  proof -
    have "n = n div 10 ^ k * 10 ^ k + n mod 10 ^ k"
      by (rule div_mult_mod_eq [symmetric])
    then have "real n = real (n div 10 ^ k * 10 ^ k + n mod 10 ^ k)"
      by (rule arg_cong)
    then have "real n = real (n div 10 ^ k) * 10 ^ k + real (n mod 10 ^ k)"
      by (simp only: of_nat_add of_nat_mult of_nat_power of_nat_numeral)
    then show ?thesis by (simp add: field_simps)
  qed
  moreover have "real n = real_of_int (round_half_even (x * 10 ^ k))"
    using nn assms(1) by (simp add: n_def)
  moreover have "\<bar>real_of_int (round_half_even (x * 10 ^ k)) / 10 ^ k - x\<bar> \<le> 1 / (2 * 10 ^ k)"
  proof -
    have "\<bar>real_of_int (round_half_even (x * 10 ^ k)) - x * 10 ^ k\<bar> \<le> 1 / 2"
      by (rule round_half_even_near)
    then have "\<bar>real_of_int (round_half_even (x * 10 ^ k)) - x * 10 ^ k\<bar> / 10 ^ k \<le> (1 / 2) / 10 ^ k"
      by (intro divide_right_mono) simp_all
    moreover have "\<bar>real_of_int (round_half_even (x * 10 ^ k)) - x * 10 ^ k\<bar> / 10 ^ k
        = \<bar>real_of_int (round_half_even (x * 10 ^ k)) / 10 ^ k - x\<bar>"
    proof -
      have "real_of_int (round_half_even (x * 10 ^ k)) / 10 ^ k - x
          = (real_of_int (round_half_even (x * 10 ^ k)) - x * 10 ^ k) / 10 ^ k"
        by (simp add: field_simps)
      then show ?thesis by simp
    qed
    ultimately show ?thesis by simp
  qed
  ultimately have "\<bar>real (digits_value (dec_digits (n div 10 ^ k)))
      + real (digits_value (frac_digits k n)) / 10 ^ k - x\<bar> \<le> 1 / (2 * 10 ^ k)"
    by (simp add: dec_digits_value frac_digits_value)
  with f frac_digits_length show ?thesis by blast
qed

subsection \<open>The recommendations\<close>

lemma write_bullets_append:
  "write_bullets entries page = page @ map (\<lambda>e. StWrite (bullet e)) entries"
  by (induction entries arbitrary: page) (simp_all add: st_write_def)

lemmas entry_defs =
  rec_do_not_consume_def rec_professional_testing_def rec_bottled_water_def
  rec_treatment_systems_def rec_ph_low_def rec_ph_high_def rec_chloramines_def
  rec_trihalomethanes_def rec_turbidity_def rec_solids_def tip_regular_monitoring_def
  tip_system_maintenance_def tip_plumbing_check_def tip_keep_records_def tip_hardness_def
  tip_chloramines_def

lemma bullet_inj [simp]: "bullet a = bullet b \<longleftrightarrow> a = b"
  by (simp add: bullet_def)

lemma tracks_distinct: "distinct (urgent_track @ maintenance_track)"
  unfolding urgent_track_def maintenance_track_def urgent_actions_def opening_tips_def
  by (simp add: entry_defs)





lemma ph_entries_distinct:
  "rec_ph_low \<noteq> rec_ph_high" "rec_ph_low \<notin> set urgent_actions" "rec_ph_high \<notin> set urgent_actions"
  "rec_ph_low \<notin> {rec_chloramines, rec_trihalomethanes, rec_turbidity, rec_solids}"
  "rec_ph_high \<notin> {rec_chloramines, rec_trihalomethanes, rec_turbidity, rec_solids}"
  using tracks_distinct
  by (auto simp: urgent_track_def maintenance_track_def)

lemma written_append: "written (xs @ ys) = written xs @ written ys"
  by (induction xs rule: written.induct) simp_all

lemma written_bullets: "written (map (\<lambda>e. StWrite (bullet e)) es) = map bullet es"
  by (induction es) simp_all

lemma append_if_risk_eq:
  "append_if_risk name entry rf recs = recs @ (if any_risk name rf then [entry] else [])"
  by (simp add: append_if_risk_def)

lemma append_ph_skip: "\<not> any_risk ''pH'' rf \<Longrightarrow> append_ph rf iv recs = Inr recs"
  by (simp add: append_ph_def)

lemma append_ph_number:
  assumes "any_risk ''pH'' rf" "map_of iv ''ph'' = Some v" "numeric_value v = Inr f"
  shows "append_ph rf iv recs =
           Inr (recs @ (if float_lt f (Finite 6.5) then [rec_ph_low]
                        else if float_gt f (Finite 8.5) then [rec_ph_high] else []))"
  using assms by (simp add: append_ph_def py_getitem_def py_lt_num_def py_gt_num_def)

lemma append_ph_cases:
  "append_ph rf iv recs = Inr r \<Longrightarrow> r = recs \<or> r = recs @ [rec_ph_low] \<or> r = recs @ [rec_ph_high]"
  by (auto simp: append_ph_def split: if_splits sum.splits bool.splits)

lemma unsafe_recommendations_number:
  assumes "any_risk ''pH'' rf \<Longrightarrow> map_of iv ''ph'' = Some v \<and> numeric_value v = Inr ph"
  shows "unsafe_recommendations rf iv =
     Inr (urgent_actions
          @ (if any_risk ''pH'' rf \<and> (float_lt ph (Finite 6.5) \<or> float_gt ph (Finite 8.5))
             then [if float_lt ph (Finite 6.5) then rec_ph_low else rec_ph_high] else [])
          @ (if any_risk ''Chloramines'' rf then [rec_chloramines] else [])
          @ (if any_risk ''Trihalomethanes'' rf then [rec_trihalomethanes] else [])
          @ (if any_risk ''Turbidity'' rf then [rec_turbidity] else [])
          @ (if any_risk ''Solids'' rf then [rec_solids] else []))"
proof (cases "any_risk ''pH'' rf")
  case True
  with assms have "map_of iv ''ph'' = Some v" "numeric_value v = Inr ph" by simp_all
  with True show ?thesis
    by (simp add: unsafe_recommendations_def append_ph_number append_if_risk_eq)
next
  case False
  then show ?thesis
    by (simp add: unsafe_recommendations_def append_ph_skip append_if_risk_eq)
qed


lemma maintenance_tips_number:
  assumes "map_of iv ''Hardness'' = Some vh" "numeric_value vh = Inr hardness"
    and "map_of iv ''Chloramines'' = Some vc" "numeric_value vc = Inr chloramines"
  shows "maintenance_tips iv =
     Inr (opening_tips
          @ (if float_gt hardness (Finite 300) then [tip_hardness] else [])
          @ (if float_gt chloramines (Finite 2.0) then [tip_chloramines] else []))"
  using assms by (simp add: maintenance_tips_def py_getitem_def py_gt_num_def)


lemma render_unsafe:
  assumes "py_eq_int p 0" "unsafe_recommendations rf iv = Inr recs"
  shows "render_recommendations p rf iv page =
           (page @ [StError immediate_actions_header] @ map (\<lambda>e. StWrite (bullet e)) recs
              @ [StExpander guide_label [StDataframe treatment_df]], None)"
  using assms
  by (simp add: render_recommendations_def write_bullets_append st_error_def treatment_guide_def)

lemma render_unsafe_raises:
  assumes "py_eq_int p 0" "unsafe_recommendations rf iv = Inl e"
  shows "render_recommendations p rf iv page = (page @ [StError immediate_actions_header], Some e)"
  using assms by (simp add: render_recommendations_def st_error_def)

lemma render_safe:
  assumes "\<not> py_eq_int p 0" "maintenance_tips iv = Inr tips"
  shows "render_recommendations p rf iv page =
           (page @ [StSuccess water_safe_header, StWrite maintenance_header]
              @ map (\<lambda>e. StWrite (bullet e)) tips
              @ [StExpander guide_label [StDataframe treatment_df]], None)"
  using assms
  by (simp add: render_recommendations_def write_bullets_append st_success_def st_write_def
      treatment_guide_def)

lemma render_safe_raises:
  assumes "\<not> py_eq_int p 0" "maintenance_tips iv = Inl e"
  shows "render_recommendations p rf iv page = (page @ [StSuccess water_safe_header], Some e)"
  using assms by (simp add: render_recommendations_def st_success_def)

text \<open>
  With numbers under \<open>ph\<close>, \<open>Hardness\<close> and \<open>Chloramines\<close> the call returns, whatever
  the prediction and the risk factors are.
\<close>

lemma render_returns:
  assumes "map_of iv ''ph'' = Some vp" "numeric_value vp = Inr ph"
    and "map_of iv ''Hardness'' = Some vh" "numeric_value vh = Inr hardness"
    and "map_of iv ''Chloramines'' = Some vc" "numeric_value vc = Inr chloramines"
  shows "snd (render_recommendations p rf iv page) = None"
proof (cases "py_eq_int p 0")
  case True
  have "any_risk ''pH'' rf \<Longrightarrow> map_of iv ''ph'' = Some vp \<and> numeric_value vp = Inr ph"
    using assms(1,2) by simp
  from render_unsafe [OF True unsafe_recommendations_number [OF this]]
  show ?thesis by simp
next
  case False
  from render_safe [OF False maintenance_tips_number [OF assms(3-6)]]
  show ?thesis by simp
qed

text \<open>A missing field or a field that is \<open>None\<close> ends the call with an exception.\<close>

lemma render_missing_field:
  "\<not> py_eq_int p 0 \<Longrightarrow> map_of iv ''Hardness'' = None \<Longrightarrow>
     render_recommendations p rf iv page = (page @ [StSuccess water_safe_header], Some (KeyError ''Hardness''))"
  by (simp add: render_safe_raises maintenance_tips_def py_getitem_def)

lemma render_none_field:
  "\<not> py_eq_int p 0 \<Longrightarrow> map_of iv ''Hardness'' = Some PyNone \<Longrightarrow>
     render_recommendations p rf iv page = (page @ [StSuccess water_safe_header], Some TypeError)"
  by (simp add: render_safe_raises maintenance_tips_def py_getitem_def py_gt_num_def)

text \<open>
  Claim C1, as amended. When the prediction equals 0, the call writes the four urgent
  actions first and then, in this order: the pH entry exactly when some risk factor
  contains \<open>pH\<close> and the \<open>ph\<close> value is below 6.5 or above 8.5; the Chloramines,
  Trihalomethanes, Turbidity and Solids entries, each exactly when some risk factor
  contains its name. Nothing else is written as a recommendation. The \<open>ph\<close> value has to
  be a number when the pH gate is open (otherwise the lookup or the comparison raises).
\<close>

theorem C1_unsafe_order:
  assumes "py_eq_int prediction 0"
    and "any_risk ''pH'' rf \<Longrightarrow> map_of iv ''ph'' = Some v \<and> numeric_value v = Inr ph"
  shows "render_recommendations prediction rf iv page =
     (page @ [StError immediate_actions_header]
        @ map (\<lambda>e. StWrite (bullet e))
           (urgent_actions
            @ (if any_risk ''pH'' rf \<and> (float_lt ph (Finite 6.5) \<or> float_gt ph (Finite 8.5))
               then [if float_lt ph (Finite 6.5) then rec_ph_low else rec_ph_high] else [])
            @ (if any_risk ''Chloramines'' rf then [rec_chloramines] else [])
            @ (if any_risk ''Trihalomethanes'' rf then [rec_trihalomethanes] else [])
            @ (if any_risk ''Turbidity'' rf then [rec_turbidity] else [])
            @ (if any_risk ''Solids'' rf then [rec_solids] else []))
        @ [StExpander guide_label [StDataframe treatment_df]], None)"
  by (rule render_unsafe [OF assms(1) unsafe_recommendations_number [OF assms(2)]])

text \<open>Scenario B of the specification: low pH and high turbidity, labelled unsafe.\<close>

theorem C1_witness:
  "py_eq_int (PyInt 0) 0
   \<and> any_risk ''pH'' [''pH 5.0 outside safe range (6.5-8.5)'', ''Turbidity 8.0 above 5.0 NTU'']
   \<and> map_of [(''ph'', PyFloat (Finite 5)), (''Hardness'', PyFloat (Finite 200)),
              (''Solids'', PyFloat (Finite 300)), (''Chloramines'', PyFloat (Finite 3)),
              (''Sulfate'', PyFloat (Finite 200)), (''Conductivity'', PyFloat (Finite 400)),
              (''Organic_carbon'', PyFloat (Finite 10)), (''Trihalomethanes'', PyFloat (Finite 50)),
              (''Turbidity'', PyFloat (Finite 8))] ''ph'' = Some (PyFloat (Finite 5))
   \<and> numeric_value (PyFloat (Finite 5)) = Inr (Finite 5)
   \<and> render_recommendations (PyInt 0)
        [''pH 5.0 outside safe range (6.5-8.5)'', ''Turbidity 8.0 above 5.0 NTU'']
        [(''ph'', PyFloat (Finite 5)), (''Hardness'', PyFloat (Finite 200)),
         (''Solids'', PyFloat (Finite 300)), (''Chloramines'', PyFloat (Finite 3)),
         (''Sulfate'', PyFloat (Finite 200)), (''Conductivity'', PyFloat (Finite 400)),
         (''Organic_carbon'', PyFloat (Finite 10)), (''Trihalomethanes'', PyFloat (Finite 50)),
         (''Turbidity'', PyFloat (Finite 8))] []
       = ([StError immediate_actions_header,
           StWrite (bullet rec_do_not_consume), StWrite (bullet rec_professional_testing),
           StWrite (bullet rec_bottled_water), StWrite (bullet rec_treatment_systems),
           StWrite (bullet rec_ph_low), StWrite (bullet rec_turbidity),
           StExpander guide_label [StDataframe treatment_df]], None)"
proof -
  let ?rf = "[''pH 5.0 outside safe range (6.5-8.5)'', ''Turbidity 8.0 above 5.0 NTU'']"
  let ?iv = "[(''ph'', PyFloat (Finite 5)), (''Hardness'', PyFloat (Finite 200)),
              (''Solids'', PyFloat (Finite 300)), (''Chloramines'', PyFloat (Finite 3)),
              (''Sulfate'', PyFloat (Finite 200)), (''Conductivity'', PyFloat (Finite 400)),
              (''Organic_carbon'', PyFloat (Finite 10)), (''Trihalomethanes'', PyFloat (Finite 50)),
              (''Turbidity'', PyFloat (Finite 8))]"
  have a: "py_eq_int (PyInt 0) 0" by simp
  have r: "any_risk ''pH'' ?rf" "\<not> any_risk ''Chloramines'' ?rf" "\<not> any_risk ''Trihalomethanes'' ?rf"
    "any_risk ''Turbidity'' ?rf" "\<not> any_risk ''Solids'' ?rf"
    by (simp_all add: any_risk_def)
  have b: "map_of ?iv ''ph'' = Some (PyFloat (Finite 5)) \<and> numeric_value (PyFloat (Finite 5)) = Inr (Finite 5)"
    by simp
  show ?thesis
    using C1_unsafe_order [of "PyInt 0" ?rf ?iv "PyFloat (Finite 5)" "Finite 5" "[]", OF a b] a r b
    by (simp add: urgent_actions_def)
qed

text \<open>
  Claim C1 as stated fails for the pH entry: a risk factor that contains \<open>pH\<close> is present,
  the \<open>ph\<close> value is 7.0, and no pH entry is written.
\<close>

theorem C1_counterexample:
  "py_eq_int (PyInt 0) 0
   \<and> any_risk ''pH'' [''pH 7.0 outside safe range (6.5-8.5)'']
   \<and> render_recommendations (PyInt 0) [''pH 7.0 outside safe range (6.5-8.5)'']
        [(''ph'', PyFloat (Finite 7)), (''Hardness'', PyFloat (Finite 200)),
         (''Solids'', PyFloat (Finite 300)), (''Chloramines'', PyFloat (Finite 3)),
         (''Sulfate'', PyFloat (Finite 200)), (''Conductivity'', PyFloat (Finite 400)),
         (''Organic_carbon'', PyFloat (Finite 10)), (''Trihalomethanes'', PyFloat (Finite 50)),
         (''Turbidity'', PyFloat (Finite 3))] []
       = ([StError immediate_actions_header,
           StWrite (bullet rec_do_not_consume), StWrite (bullet rec_professional_testing),
           StWrite (bullet rec_bottled_water), StWrite (bullet rec_treatment_systems),
           StExpander guide_label [StDataframe treatment_df]], None)"
  by (simp add: any_risk_def render_recommendations_def unsafe_recommendations_def append_ph_def
      append_if_risk_def py_getitem_def py_lt_num_def py_gt_num_def float_gt_def st_error_def
      st_write_def treatment_guide_def urgent_actions_def)

text \<open>
  Claim C2. In the unsafe branch with a pH risk factor present, the entry that follows
  the four urgent actions is the too-low wording when \<open>ph < 6.5\<close> and the too-high
  wording when \<open>ph > 8.5\<close>, and the other wording is not written at all.
\<close>

theorem C2_ph_wording:
  assumes "py_eq_int prediction 0" and "any_risk ''pH'' rf"
    and "map_of iv ''ph'' = Some v" and "numeric_value v = Inr (Finite ph)"
  shows "(ph < 6.5 \<longrightarrow>
            fst (render_recommendations prediction rf iv []) ! 5 = StWrite (bullet rec_ph_low)
            \<and> bullet rec_ph_high \<notin> set (written (fst (render_recommendations prediction rf iv []))))
       \<and> (ph > 8.5 \<longrightarrow>
            fst (render_recommendations prediction rf iv []) ! 5 = StWrite (bullet rec_ph_high)
            \<and> bullet rec_ph_low \<notin> set (written (fst (render_recommendations prediction rf iv []))))"
proof -
  have u: "unsafe_recommendations rf iv =
     Inr (urgent_actions
          @ (if any_risk ''pH'' rf \<and> (float_lt (Finite ph) (Finite 6.5) \<or> float_gt (Finite ph) (Finite 8.5))
             then [if float_lt (Finite ph) (Finite 6.5) then rec_ph_low else rec_ph_high] else [])
          @ (if any_risk ''Chloramines'' rf then [rec_chloramines] else [])
          @ (if any_risk ''Trihalomethanes'' rf then [rec_trihalomethanes] else [])
          @ (if any_risk ''Turbidity'' rf then [rec_turbidity] else [])
          @ (if any_risk ''Solids'' rf then [rec_solids] else []))"
    by (rule unsafe_recommendations_number [where v = v]) (simp add: assms)
  note r = render_unsafe [OF assms(1) u, of "[]"]
  have len: "length urgent_actions = 4" by (simp add: urgent_actions_def)
  show ?thesis
    using ph_entries_distinct assms(2)
    by (auto simp: r written_append written_bullets float_gt_def nth_append len nth_Cons')
qed

text \<open>Claim C2 at a too-high value: \<open>ph = 9.2\<close>.\<close>

theorem C2_witness:
  "py_eq_int (PyInt 0) 0
   \<and> any_risk ''pH'' [''pH 9.2 outside safe range (6.5-8.5)'']
   \<and> map_of [(''ph'', PyFloat (Finite 9.2)), (''Hardness'', PyFloat (Finite 200)),
              (''Solids'', PyFloat (Finite 300)), (''Chloramines'', PyFloat (Finite 3)),
              (''Sulfate'', PyFloat (Finite 200)), (''Conductivity'', PyFloat (Finite 400)),
              (''Organic_carbon'', PyFloat (Finite 10)), (''Trihalomethanes'', PyFloat (Finite 50)),
              (''Turbidity'', PyFloat (Finite 3))] ''ph'' = Some (PyFloat (Finite 9.2))
   \<and> numeric_value (PyFloat (Finite 9.2)) = Inr (Finite 9.2)
   \<and> (9.2::real) > 8.5
   \<and> fst (render_recommendations (PyInt 0) [''pH 9.2 outside safe range (6.5-8.5)'']
        [(''ph'', PyFloat (Finite 9.2)), (''Hardness'', PyFloat (Finite 200)),
         (''Solids'', PyFloat (Finite 300)), (''Chloramines'', PyFloat (Finite 3)),
         (''Sulfate'', PyFloat (Finite 200)), (''Conductivity'', PyFloat (Finite 400)),
         (''Organic_carbon'', PyFloat (Finite 10)), (''Trihalomethanes'', PyFloat (Finite 50)),
         (''Turbidity'', PyFloat (Finite 3))] []) ! 5 = StWrite (bullet rec_ph_high)
   \<and> bullet rec_ph_low \<notin> set (written (fst (render_recommendations (PyInt 0)
        [''pH 9.2 outside safe range (6.5-8.5)'']
        [(''ph'', PyFloat (Finite 9.2)), (''Hardness'', PyFloat (Finite 200)),
         (''Solids'', PyFloat (Finite 300)), (''Chloramines'', PyFloat (Finite 3)),
         (''Sulfate'', PyFloat (Finite 200)), (''Conductivity'', PyFloat (Finite 400)),
         (''Organic_carbon'', PyFloat (Finite 10)), (''Trihalomethanes'', PyFloat (Finite 50)),
         (''Turbidity'', PyFloat (Finite 3))] [])))"
proof -
  let ?rf = "[''pH 9.2 outside safe range (6.5-8.5)'']"
  let ?iv = "[(''ph'', PyFloat (Finite 9.2)), (''Hardness'', PyFloat (Finite 200)),
              (''Solids'', PyFloat (Finite 300)), (''Chloramines'', PyFloat (Finite 3)),
              (''Sulfate'', PyFloat (Finite 200)), (''Conductivity'', PyFloat (Finite 400)),
              (''Organic_carbon'', PyFloat (Finite 10)), (''Trihalomethanes'', PyFloat (Finite 50)),
              (''Turbidity'', PyFloat (Finite 3))]"
  have a: "py_eq_int (PyInt 0) 0" by simp
  have r: "any_risk ''pH'' ?rf" by (simp add: any_risk_def)
  have m: "map_of ?iv ''ph'' = Some (PyFloat (Finite 9.2))" by simp
  have n: "numeric_value (PyFloat (Finite 9.2)) = Inr (Finite 9.2)" by simp
  have g: "(9.2::real) > 8.5" by simp
  from C2_ph_wording [OF a r m n] g
  have "fst (render_recommendations (PyInt 0) ?rf ?iv []) ! 5 = StWrite (bullet rec_ph_high)
      \<and> bullet rec_ph_low \<notin> set (written (fst (render_recommendations (PyInt 0) ?rf ?iv [])))"
    by blast
  with a r m n g show ?thesis by blast
qed

text \<open>
  Claim C3. When the prediction does not equal 0, the call writes the four maintenance
  tips, then the hardness tip exactly when \<open>Hardness > 300\<close>, then the chloramine tip
  exactly when \<open>Chloramines > 2.0\<close>, and no other entry. Both values have to be numbers.
\<close>

theorem C3_safe_tips:
  assumes "\<not> py_eq_int prediction 0"
    and "map_of iv ''Hardness'' = Some vh" and "numeric_value vh = Inr hardness"
    and "map_of iv ''Chloramines'' = Some vc" and "numeric_value vc = Inr chloramines"
  shows "render_recommendations prediction rf iv page =
     (page @ [StSuccess water_safe_header, StWrite maintenance_header]
        @ map (\<lambda>e. StWrite (bullet e))
           (opening_tips
            @ (if float_gt hardness (Finite 300) then [tip_hardness] else [])
            @ (if float_gt chloramines (Finite 2.0) then [tip_chloramines] else []))
        @ [StExpander guide_label [StDataframe treatment_df]], None)"
  by (rule render_safe [OF assms(1) maintenance_tips_number [OF assms(2-5)]])

text \<open>Scenario C of the specification: labelled safe, Hardness 350, Chloramines 1.0.\<close>

theorem C3_witness:
  "\<not> py_eq_int (PyInt 1) 0
   \<and> map_of [(''ph'', PyFloat (Finite 7)), (''Hardness'', PyFloat (Finite 350)),
              (''Solids'', PyFloat (Finite 300)), (''Chloramines'', PyFloat (Finite 1)),
              (''Sulfate'', PyFloat (Finite 200)), (''Conductivity'', PyFloat (Finite 400)),
              (''Organic_carbon'', PyFloat (Finite 10)), (''Trihalomethanes'', PyFloat (Finite 50)),
              (''Turbidity'', PyFloat (Finite 3))] ''Hardness'' = Some (PyFloat (Finite 350))
   \<and> numeric_value (PyFloat (Finite 350)) = Inr (Finite 350)
   \<and> map_of [(''ph'', PyFloat (Finite 7)), (''Hardness'', PyFloat (Finite 350)),
              (''Solids'', PyFloat (Finite 300)), (''Chloramines'', PyFloat (Finite 1)),
              (''Sulfate'', PyFloat (Finite 200)), (''Conductivity'', PyFloat (Finite 400)),
              (''Organic_carbon'', PyFloat (Finite 10)), (''Trihalomethanes'', PyFloat (Finite 50)),
              (''Turbidity'', PyFloat (Finite 3))] ''Chloramines'' = Some (PyFloat (Finite 1))
   \<and> numeric_value (PyFloat (Finite 1)) = Inr (Finite 1)
   \<and> render_recommendations (PyInt 1) []
        [(''ph'', PyFloat (Finite 7)), (''Hardness'', PyFloat (Finite 350)),
         (''Solids'', PyFloat (Finite 300)), (''Chloramines'', PyFloat (Finite 1)),
         (''Sulfate'', PyFloat (Finite 200)), (''Conductivity'', PyFloat (Finite 400)),
         (''Organic_carbon'', PyFloat (Finite 10)), (''Trihalomethanes'', PyFloat (Finite 50)),
         (''Turbidity'', PyFloat (Finite 3))] []
       = ([StSuccess water_safe_header, StWrite maintenance_header,
           StWrite (bullet tip_regular_monitoring), StWrite (bullet tip_system_maintenance),
           StWrite (bullet tip_plumbing_check), StWrite (bullet tip_keep_records),
           StWrite (bullet tip_hardness),
           StExpander guide_label [StDataframe treatment_df]], None)"
proof -
  let ?iv = "[(''ph'', PyFloat (Finite 7)), (''Hardness'', PyFloat (Finite 350)),
              (''Solids'', PyFloat (Finite 300)), (''Chloramines'', PyFloat (Finite 1)),
              (''Sulfate'', PyFloat (Finite 200)), (''Conductivity'', PyFloat (Finite 400)),
              (''Organic_carbon'', PyFloat (Finite 10)), (''Trihalomethanes'', PyFloat (Finite 50)),
              (''Turbidity'', PyFloat (Finite 3))]"
  have a: "\<not> py_eq_int (PyInt 1) 0" by simp
  have h: "map_of ?iv ''Hardness'' = Some (PyFloat (Finite 350))" by simp
  have hn: "numeric_value (PyFloat (Finite 350)) = Inr (Finite 350)" by simp
  have c: "map_of ?iv ''Chloramines'' = Some (PyFloat (Finite 1))" by simp
  have cn: "numeric_value (PyFloat (Finite 1)) = Inr (Finite 1)" by simp
  show ?thesis
    using C3_safe_tips [OF a h hn c cn, of "[]" "[]"] a h hn c cn
    by (simp add: opening_tips_def float_gt_def)
qed




text \<open>
  Claim C10. In the unsafe branch, when a risk factor contains \<open>pH\<close> but
  \<open>6.5 \<le> ph \<le> 8.5\<close>, the recommendations are the four urgent actions followed only by
  the entries of the four other gates: neither pH wording is written.
\<close>

theorem C10_ph_gate_silent:
  assumes "py_eq_int prediction 0" and "any_risk ''pH'' rf"
    and "map_of iv ''ph'' = Some v" and "numeric_value v = Inr (Finite ph)"
    and "6.5 \<le> ph" and "ph \<le> 8.5"
  shows "render_recommendations prediction rf iv page =
     (page @ [StError immediate_actions_header]
        @ map (\<lambda>e. StWrite (bullet e))
           (urgent_actions
            @ (if any_risk ''Chloramines'' rf then [rec_chloramines] else [])
            @ (if any_risk ''Trihalomethanes'' rf then [rec_trihalomethanes] else [])
            @ (if any_risk ''Turbidity'' rf then [rec_turbidity] else [])
            @ (if any_risk ''Solids'' rf then [rec_solids] else []))
        @ [StExpander guide_label [StDataframe treatment_df]], None)
     \<and> bullet rec_ph_low \<notin> set (written (fst (render_recommendations prediction rf iv [])))
     \<and> bullet rec_ph_high \<notin> set (written (fst (render_recommendations prediction rf iv [])))"
proof -
  have u: "unsafe_recommendations rf iv =
     Inr (urgent_actions
          @ (if any_risk ''pH'' rf \<and> (float_lt (Finite ph) (Finite 6.5) \<or> float_gt (Finite ph) (Finite 8.5))
             then [if float_lt (Finite ph) (Finite 6.5) then rec_ph_low else rec_ph_high] else [])
          @ (if any_risk ''Chloramines'' rf then [rec_chloramines] else [])
          @ (if any_risk ''Trihalomethanes'' rf then [rec_trihalomethanes] else [])
          @ (if any_risk ''Turbidity'' rf then [rec_turbidity] else [])
          @ (if any_risk ''Solids'' rf then [rec_solids] else []))"
    by (rule unsafe_recommendations_number [where v = v]) (simp add: assms)
  have no: "\<not> (float_lt (Finite ph) (Finite 6.5) \<or> float_gt (Finite ph) (Finite 8.5))"
    using assms(5,6) by (simp add: float_gt_def)
  show ?thesis
    using ph_entries_distinct no
    by (auto simp: render_unsafe [OF assms(1) u] written_append written_bullets)
qed

text \<open>Claim C10 at \<open>ph = 7.0\<close>, with a Solids risk factor as well.\<close>

theorem C10_witness:
  "py_eq_int (PyInt 0) 0
   \<and> any_risk ''pH'' [''pH 7.0 outside safe range (6.5-8.5)'', ''Solids: 900 ppm above 500'']
   \<and> map_of [(''ph'', PyFloat (Finite 7)), (''Hardness'', PyFloat (Finite 200)),
              (''Solids'', PyFloat (Finite 900)), (''Chloramines'', PyFloat (Finite 3)),
              (''Sulfate'', PyFloat (Finite 200)), (''Conductivity'', PyFloat (Finite 400)),
              (''Organic_carbon'', PyFloat (Finite 10)), (''Trihalomethanes'', PyFloat (Finite 50)),
              (''Turbidity'', PyFloat (Finite 3))] ''ph'' = Some (PyFloat (Finite 7))
   \<and> numeric_value (PyFloat (Finite 7)) = Inr (Finite 7)
   \<and> (6.5::real) \<le> 7 \<and> (7::real) \<le> 8.5
   \<and> render_recommendations (PyInt 0)
        [''pH 7.0 outside safe range (6.5-8.5)'', ''Solids: 900 ppm above 500'']
        [(''ph'', PyFloat (Finite 7)), (''Hardness'', PyFloat (Finite 200)),
         (''Solids'', PyFloat (Finite 900)), (''Chloramines'', PyFloat (Finite 3)),
         (''Sulfate'', PyFloat (Finite 200)), (''Conductivity'', PyFloat (Finite 400)),
         (''Organic_carbon'', PyFloat (Finite 10)), (''Trihalomethanes'', PyFloat (Finite 50)),
         (''Turbidity'', PyFloat (Finite 3))] []
       = ([StError immediate_actions_header,
           StWrite (bullet rec_do_not_consume), StWrite (bullet rec_professional_testing),
           StWrite (bullet rec_bottled_water), StWrite (bullet rec_treatment_systems),
           StWrite (bullet rec_solids),
           StExpander guide_label [StDataframe treatment_df]], None)"
proof -
  let ?rf = "[''pH 7.0 outside safe range (6.5-8.5)'', ''Solids: 900 ppm above 500'']"
  let ?iv = "[(''ph'', PyFloat (Finite 7)), (''Hardness'', PyFloat (Finite 200)),
              (''Solids'', PyFloat (Finite 900)), (''Chloramines'', PyFloat (Finite 3)),
              (''Sulfate'', PyFloat (Finite 200)), (''Conductivity'', PyFloat (Finite 400)),
              (''Organic_carbon'', PyFloat (Finite 10)), (''Trihalomethanes'', PyFloat (Finite 50)),
              (''Turbidity'', PyFloat (Finite 3))]"
  have a: "py_eq_int (PyInt 0) 0" by simp
  have r: "any_risk ''pH'' ?rf" "\<not> any_risk ''Chloramines'' ?rf" "\<not> any_risk ''Trihalomethanes'' ?rf"
    "\<not> any_risk ''Turbidity'' ?rf" "any_risk ''Solids'' ?rf"
    by (simp_all add: any_risk_def)
  have m: "map_of ?iv ''ph'' = Some (PyFloat (Finite 7))" by simp
  have n: "numeric_value (PyFloat (Finite 7)) = Inr (Finite 7)" by simp
  have lo: "(6.5::real) \<le> 7" and hi: "(7::real) \<le> 8.5" by simp_all
  show ?thesis
    using C10_ph_gate_silent [OF a r(1) m n lo hi, of "[]"] a r m n
    by (simp add: urgent_actions_def)
qed

subsection \<open>The exported row\<close>


lemma derived_fields_keys:
  "derived_fields fl ts p prob rf = Inr fields \<Longrightarrow>
     map fst fields = [''Prediction'', ''Confidence'', ''Safe_Probability'', ''Unsafe_Probability'',
                       ''Risk_Factors_Count'', ''Risk_Factors'', ''Timestamp'']"
  by (auto simp: derived_fields_def split: sum.splits)

lemma derived_fields_total:
  "2 \<le> length prob \<Longrightarrow> \<exists>fields. derived_fields fl ts p prob rf = Inr fields"
  by (cases prob) (auto simp: derived_fields_def py_index_def split: sum.splits)

lemma derived_fields_lookup:
  assumes "derived_fields fl ts p prob rf = Inr fields"
  shows "map_of (rev fields) ''Prediction'' = Some (PyStr (if py_eq_int p 1 then ''Safe'' else ''Unsafe''))"
    and "map_of (rev fields) ''Risk_Factors_Count'' = Some (PyInt (int (length rf)))"
    and "map_of (rev fields) ''Risk_Factors'' =
           Some (PyStr (if rf \<noteq> [] then py_join ''; '' rf else ''None''))"
    and "map_of (rev fields) ''Timestamp'' = Some (PyStr ts)"
  using assms by (auto simp: derived_fields_def split: sum.splits)

lemma parameter_field_not_derived:
  assumes "derived_fields fl ts p prob rf = Inr fields" "k \<in> set parameter_fields"
  shows "map_of (rev fields) k = None"
proof -
  have "k \<notin> set (map fst fields)"
    using assms(2) unfolding derived_fields_keys [OF assms(1)] parameter_fields_def by auto
  then show ?thesis by (simp add: map_of_eq_None_iff)
qed

lemma export_results_ok:
  assumes "a < length h" "derived_fields fl ts p prob rf = Inr fields"
  shows "export_results fl ts h a p prob rf =
           (h @ [dict_update (h ! a) fields], Inr [dict_update (h ! a) fields])"
  using assms by (simp add: export_results_def heap_get_def Let_def nth_append)

lemma export_results_raises:
  assumes "a < length h" "derived_fields fl ts p prob rf = Inl e"
  shows "export_results fl ts h a p prob rf = (h @ [h ! a], Inl e)"
  using assms by (simp add: export_results_def heap_get_def Let_def)

lemma export_results_no_dict:
  assumes "\<not> a < length h"
  shows "export_results fl ts h a p prob rf = (h, Inl AttributeError)"
  using assms by (simp add: export_results_def heap_get_def)

lemmas export_eval =
  export_results_def heap_get_def derived_fields_def py_index_def dict_update_def float_gt_def
  format_eval

lemma export_results_Inr:
  assumes "export_results fl ts h a p prob rf = (h', Inr df)"
  shows "\<exists>fields. derived_fields fl ts p prob rf = Inr fields \<and> a < length h
           \<and> df = [dict_update (h ! a) fields] \<and> h' = h @ [dict_update (h ! a) fields]"
proof (cases "a < length h")
  case False
  with assms show ?thesis by (simp add: export_results_no_dict)
next
  case True
  show ?thesis
  proof (cases "derived_fields fl ts p prob rf")
    case (Inl e)
    with assms True show ?thesis by (simp add: export_results_raises)
  next
    case (Inr fields)
    with assms True show ?thesis by (auto simp: export_results_ok)
  qed
qed

lemma export_results_frame: "take (length h) (fst (export_results fl ts h a p prob rf)) = h"
proof (cases "a < length h")
  case False
  then show ?thesis by (simp add: export_results_no_dict)
next
  case True
  then show ?thesis
    by (cases "derived_fields fl ts p prob rf") (simp_all add: export_results_ok export_results_raises)
qed



text \<open>
  Claim C6. In the exported row, \<open>Risk_Factors_Count\<close> is the length of the risk-factor
  list, and \<open>Risk_Factors\<close> is \<open>None\<close> for the empty list and otherwise the entries in
  order with a semicolon and a space between neighbours.
\<close>

theorem C6_risk_fields:
  assumes "export_results fl ts h input_values p prob rf = (h', Inr df)"
  shows "\<exists>row. df = [row]
       \<and> map_of row ''Risk_Factors_Count'' = Some (PyInt (int (length rf)))
       \<and> map_of row ''Risk_Factors'' =
           Some (PyStr (case rf of [] \<Rightarrow> ''None''
                        | x # xs \<Rightarrow> x @ concat (map ((@) ''; '') xs)))"
proof -
  from assms obtain fields where f: "derived_fields fl ts p prob rf = Inr fields"
    and df: "df = [dict_update (h ! input_values) fields]"
    using export_results_Inr by blast
  have j: "(if rf \<noteq> [] then py_join ''; '' rf else ''None'')
         = (case rf of [] \<Rightarrow> ''None'' | x # xs \<Rightarrow> x @ concat (map ((@) ''; '') xs))"
  proof (cases rf)
    case Nil
    then show ?thesis by simp
  next
    case (Cons x xs)
    then show ?thesis by (simp only: py_join_concat list.case list.distinct not_False_eq_True if_True)
  qed
  show ?thesis
    using derived_fields_lookup(2,3) [OF f] j
    by (simp add: df map_of_dict_update map_add_def)
qed

text \<open>Claim C6 on scenario B of the specification, with its two risk factors.\<close>

theorem C6_witness:
  "export_results Finite ''2024-01-01 12:00:00''
     [[(''ph'', PyFloat (Finite 5)), (''Hardness'', PyFloat (Finite 200)),
       (''Solids'', PyFloat (Finite 300)), (''Chloramines'', PyFloat (Finite 3)),
       (''Sulfate'', PyFloat (Finite 200)), (''Conductivity'', PyFloat (Finite 400)),
       (''Organic_carbon'', PyFloat (Finite 10)), (''Trihalomethanes'', PyFloat (Finite 50)),
       (''Turbidity'', PyFloat (Finite 8))]]
     0 (PyInt 0) [Finite 0.8, Finite 0.2]
     [''pH 5.0 outside safe range (6.5-8.5)'', ''Turbidity 8.0 above 5.0 NTU'']
   = ([[(''ph'', PyFloat (Finite 5)), (''Hardness'', PyFloat (Finite 200)),
       (''Solids'', PyFloat (Finite 300)), (''Chloramines'', PyFloat (Finite 3)),
       (''Sulfate'', PyFloat (Finite 200)), (''Conductivity'', PyFloat (Finite 400)),
       (''Organic_carbon'', PyFloat (Finite 10)), (''Trihalomethanes'', PyFloat (Finite 50)),
       (''Turbidity'', PyFloat (Finite 8))],
       [(''ph'', PyFloat (Finite 5)), (''Hardness'', PyFloat (Finite 200)),
         (''Solids'', PyFloat (Finite 300)), (''Chloramines'', PyFloat (Finite 3)),
         (''Sulfate'', PyFloat (Finite 200)), (''Conductivity'', PyFloat (Finite 400)),
         (''Organic_carbon'', PyFloat (Finite 10)), (''Trihalomethanes'', PyFloat (Finite 50)),
         (''Turbidity'', PyFloat (Finite 8)), (''Prediction'', PyStr ''Unsafe''),
         (''Confidence'', PyStr ''80.0%''), (''Safe_Probability'', PyStr ''0.200''),
         (''Unsafe_Probability'', PyStr ''0.800''), (''Risk_Factors_Count'', PyInt 2),
         (''Risk_Factors'', PyStr ''pH 5.0 outside safe range (6.5-8.5); Turbidity 8.0 above 5.0 NTU''), (''Timestamp'', PyStr ''2024-01-01 12:00:00'')]],
      Inr [[(''ph'', PyFloat (Finite 5)), (''Hardness'', PyFloat (Finite 200)),
         (''Solids'', PyFloat (Finite 300)), (''Chloramines'', PyFloat (Finite 3)),
         (''Sulfate'', PyFloat (Finite 200)), (''Conductivity'', PyFloat (Finite 400)),
         (''Organic_carbon'', PyFloat (Finite 10)), (''Trihalomethanes'', PyFloat (Finite 50)),
         (''Turbidity'', PyFloat (Finite 8)), (''Prediction'', PyStr ''Unsafe''),
         (''Confidence'', PyStr ''80.0%''), (''Safe_Probability'', PyStr ''0.200''),
         (''Unsafe_Probability'', PyStr ''0.800''), (''Risk_Factors_Count'', PyInt 2),
         (''Risk_Factors'', PyStr ''pH 5.0 outside safe range (6.5-8.5); Turbidity 8.0 above 5.0 NTU''), (''Timestamp'', PyStr ''2024-01-01 12:00:00'')]])
   \<and> map_of [(''ph'', PyFloat (Finite 5)), (''Hardness'', PyFloat (Finite 200)),
         (''Solids'', PyFloat (Finite 300)), (''Chloramines'', PyFloat (Finite 3)),
         (''Sulfate'', PyFloat (Finite 200)), (''Conductivity'', PyFloat (Finite 400)),
         (''Organic_carbon'', PyFloat (Finite 10)), (''Trihalomethanes'', PyFloat (Finite 50)),
         (''Turbidity'', PyFloat (Finite 8)), (''Prediction'', PyStr ''Unsafe''),
         (''Confidence'', PyStr ''80.0%''), (''Safe_Probability'', PyStr ''0.200''),
         (''Unsafe_Probability'', PyStr ''0.800''), (''Risk_Factors_Count'', PyInt 2),
         (''Risk_Factors'', PyStr ''pH 5.0 outside safe range (6.5-8.5); Turbidity 8.0 above 5.0 NTU''), (''Timestamp'', PyStr ''2024-01-01 12:00:00'')]
        ''Risk_Factors_Count'' = Some (PyInt 2)
   \<and> map_of [(''ph'', PyFloat (Finite 5)), (''Hardness'', PyFloat (Finite 200)),
         (''Solids'', PyFloat (Finite 300)), (''Chloramines'', PyFloat (Finite 3)),
         (''Sulfate'', PyFloat (Finite 200)), (''Conductivity'', PyFloat (Finite 400)),
         (''Organic_carbon'', PyFloat (Finite 10)), (''Trihalomethanes'', PyFloat (Finite 50)),
         (''Turbidity'', PyFloat (Finite 8)), (''Prediction'', PyStr ''Unsafe''),
         (''Confidence'', PyStr ''80.0%''), (''Safe_Probability'', PyStr ''0.200''),
         (''Unsafe_Probability'', PyStr ''0.800''), (''Risk_Factors_Count'', PyInt 2),
         (''Risk_Factors'', PyStr ''pH 5.0 outside safe range (6.5-8.5); Turbidity 8.0 above 5.0 NTU''), (''Timestamp'', PyStr ''2024-01-01 12:00:00'')]
        ''Risk_Factors'' = Some (PyStr ''pH 5.0 outside safe range (6.5-8.5); Turbidity 8.0 above 5.0 NTU'')"
proof -
  let ?iv = "[(''ph'', PyFloat (Finite 5)), (''Hardness'', PyFloat (Finite 200)),
       (''Solids'', PyFloat (Finite 300)), (''Chloramines'', PyFloat (Finite 3)),
       (''Sulfate'', PyFloat (Finite 200)), (''Conductivity'', PyFloat (Finite 400)),
       (''Organic_carbon'', PyFloat (Finite 10)), (''Trihalomethanes'', PyFloat (Finite 50)),
       (''Turbidity'', PyFloat (Finite 8))]"
  let ?row = "[(''ph'', PyFloat (Finite 5)), (''Hardness'', PyFloat (Finite 200)),
         (''Solids'', PyFloat (Finite 300)), (''Chloramines'', PyFloat (Finite 3)),
         (''Sulfate'', PyFloat (Finite 200)), (''Conductivity'', PyFloat (Finite 400)),
         (''Organic_carbon'', PyFloat (Finite 10)), (''Trihalomethanes'', PyFloat (Finite 50)),
         (''Turbidity'', PyFloat (Finite 8)), (''Prediction'', PyStr ''Unsafe''),
         (''Confidence'', PyStr ''80.0%''), (''Safe_Probability'', PyStr ''0.200''),
         (''Unsafe_Probability'', PyStr ''0.800''), (''Risk_Factors_Count'', PyInt 2),
         (''Risk_Factors'', PyStr ''pH 5.0 outside safe range (6.5-8.5); Turbidity 8.0 above 5.0 NTU''), (''Timestamp'', PyStr ''2024-01-01 12:00:00'')]"
  let ?rf = "[''pH 5.0 outside safe range (6.5-8.5)'', ''Turbidity 8.0 above 5.0 NTU'']"
  have run: "export_results Finite ''2024-01-01 12:00:00'' [?iv] 0 (PyInt 0) [Finite 0.8, Finite 0.2] ?rf
               = ([?iv, ?row], Inr [?row])"
    by (simp add: export_eval)
  obtain row where r: "[?row] = [row]"
      "map_of row ''Risk_Factors_Count'' = Some (PyInt (int (length ?rf)))"
      "map_of row ''Risk_Factors'' =
           Some (PyStr (case ?rf of [] \<Rightarrow> ''None'' | x # xs \<Rightarrow> x @ concat (map ((@) ''; '') xs)))"
    using C6_risk_fields [OF run] by blast
  from r(1) have e: "row = ?row" by simp
  have n: "map_of ?row ''Risk_Factors_Count'' = Some (PyInt 2)"
    using r(2) unfolding e by simp
  have j: "map_of ?row ''Risk_Factors'' =
           Some (PyStr ''pH 5.0 outside safe range (6.5-8.5); Turbidity 8.0 above 5.0 NTU'')"
    using r(3) unfolding e by simp
  show ?thesis by (intro conjI run n j)
qed

text \<open>
  Claim C7. \<open>export_results\<close> leaves every dictionary that existed before the call as it
  was, the one passed as \<open>input_values\<close> among them: it only adds the copy. With a
  dictionary passed in and at least two probabilities it returns one row, and in a row it
  returns each of the nine parameter fields has the value it has in \<open>input_values\<close>.
\<close>

theorem C7_input_kept:
  assumes "export_results fl ts h input_values p prob rf = (h', result)"
  shows "take (length h) h' = h
       \<and> (input_values < length h \<and> 2 \<le> length prob \<longrightarrow> (\<exists>row. result = Inr [row]))
       \<and> (\<forall>df. result = Inr df \<longrightarrow>
            (\<exists>row. df = [row]
               \<and> (\<forall>k \<in> set parameter_fields. map_of row k = map_of (h ! input_values) k)))"
proof (intro conjI allI impI)
  show "take (length h) h' = h"
    using export_results_frame [of h fl ts input_values p prob rf] assms by simp
next
  assume "input_values < length h \<and> 2 \<le> length prob"
  then obtain fields where "derived_fields fl ts p prob rf = Inr fields" "input_values < length h"
    using derived_fields_total [of prob fl ts p rf] by blast
  with assms show "\<exists>row. result = Inr [row]"
    by (auto simp: export_results_ok)
next
  fix df assume "result = Inr df"
  with assms obtain fields where f: "derived_fields fl ts p prob rf = Inr fields"
    and df: "df = [dict_update (h ! input_values) fields]"
    using export_results_Inr by blast
  have "\<forall>k \<in> set parameter_fields.
          map_of (dict_update (h ! input_values) fields) k = map_of (h ! input_values) k"
    by (simp add: map_of_dict_update map_add_def parameter_field_not_derived [OF f])
  with df show "\<exists>row. df = [row]
      \<and> (\<forall>k \<in> set parameter_fields. map_of row k = map_of (h ! input_values) k)"
    by blast
qed

text \<open>
  Claim C7 on scenario A of the specification: the dictionary passed in is still the only
  object at its address, and the row holds the nine values.
\<close>

theorem C7_witness:
  "export_results Finite ''2024-01-01 12:00:00''
     [[(''ph'', PyFloat (Finite 7)), (''Hardness'', PyFloat (Finite 200)),
       (''Solids'', PyFloat (Finite 300)), (''Chloramines'', PyFloat (Finite 3)),
       (''Sulfate'', PyFloat (Finite 200)), (''Conductivity'', PyFloat (Finite 400)),
       (''Organic_carbon'', PyFloat (Finite 10)), (''Trihalomethanes'', PyFloat (Finite 50)),
       (''Turbidity'', PyFloat (Finite 3))]]
     0 (PyInt 1) [Finite 0.25, Finite 0.75] []
   = ([[(''ph'', PyFloat (Finite 7)), (''Hardness'', PyFloat (Finite 200)),
       (''Solids'', PyFloat (Finite 300)), (''Chloramines'', PyFloat (Finite 3)),
       (''Sulfate'', PyFloat (Finite 200)), (''Conductivity'', PyFloat (Finite 400)),
       (''Organic_carbon'', PyFloat (Finite 10)), (''Trihalomethanes'', PyFloat (Finite 50)),
       (''Turbidity'', PyFloat (Finite 3))],
       [(''ph'', PyFloat (Finite 7)), (''Hardness'', PyFloat (Finite 200)),
         (''Solids'', PyFloat (Finite 300)), (''Chloramines'', PyFloat (Finite 3)),
         (''Sulfate'', PyFloat (Finite 200)), (''Conductivity'', PyFloat (Finite 400)),
         (''Organic_carbon'', PyFloat (Finite 10)), (''Trihalomethanes'', PyFloat (Finite 50)),
         (''Turbidity'', PyFloat (Finite 3)), (''Prediction'', PyStr ''Safe''),
         (''Confidence'', PyStr ''75.0%''), (''Safe_Probability'', PyStr ''0.750''),
         (''Unsafe_Probability'', PyStr ''0.250''), (''Risk_Factors_Count'', PyInt 0),
         (''Risk_Factors'', PyStr ''None''), (''Timestamp'', PyStr ''2024-01-01 12:00:00'')]],
      Inr [[(''ph'', PyFloat (Finite 7)), (''Hardness'', PyFloat (Finite 200)),
         (''Solids'', PyFloat (Finite 300)), (''Chloramines'', PyFloat (Finite 3)),
         (''Sulfate'', PyFloat (Finite 200)), (''Conductivity'', PyFloat (Finite 400)),
         (''Organic_carbon'', PyFloat (Finite 10)), (''Trihalomethanes'', PyFloat (Finite 50)),
         (''Turbidity'', PyFloat (Finite 3)), (''Prediction'', PyStr ''Safe''),
         (''Confidence'', PyStr ''75.0%''), (''Safe_Probability'', PyStr ''0.750''),
         (''Unsafe_Probability'', PyStr ''0.250''), (''Risk_Factors_Count'', PyInt 0),
         (''Risk_Factors'', PyStr ''None''), (''Timestamp'', PyStr ''2024-01-01 12:00:00'')]])
   \<and> take (length [[(''ph'', PyFloat (Finite 7)), (''Hardness'', PyFloat (Finite 200)),
       (''Solids'', PyFloat (Finite 300)), (''Chloramines'', PyFloat (Finite 3)),
       (''Sulfate'', PyFloat (Finite 200)), (''Conductivity'', PyFloat (Finite 400)),
       (''Organic_carbon'', PyFloat (Finite 10)), (''Trihalomethanes'', PyFloat (Finite 50)),
       (''Turbidity'', PyFloat (Finite 3))]])
        [[(''ph'', PyFloat (Finite 7)), (''Hardness'', PyFloat (Finite 200)),
       (''Solids'', PyFloat (Finite 300)), (''Chloramines'', PyFloat (Finite 3)),
       (''Sulfate'', PyFloat (Finite 200)), (''Conductivity'', PyFloat (Finite 400)),
       (''Organic_carbon'', PyFloat (Finite 10)), (''Trihalomethanes'', PyFloat (Finite 50)),
       (''Turbidity'', PyFloat (Finite 3))],
         [(''ph'', PyFloat (Finite 7)), (''Hardness'', PyFloat (Finite 200)),
         (''Solids'', PyFloat (Finite 300)), (''Chloramines'', PyFloat (Finite 3)),
         (''Sulfate'', PyFloat (Finite 200)), (''Conductivity'', PyFloat (Finite 400)),
         (''Organic_carbon'', PyFloat (Finite 10)), (''Trihalomethanes'', PyFloat (Finite 50)),
         (''Turbidity'', PyFloat (Finite 3)), (''Prediction'', PyStr ''Safe''),
         (''Confidence'', PyStr ''75.0%''), (''Safe_Probability'', PyStr ''0.750''),
         (''Unsafe_Probability'', PyStr ''0.250''), (''Risk_Factors_Count'', PyInt 0),
         (''Risk_Factors'', PyStr ''None''), (''Timestamp'', PyStr ''2024-01-01 12:00:00'')]]
      = [[(''ph'', PyFloat (Finite 7)), (''Hardness'', PyFloat (Finite 200)),
       (''Solids'', PyFloat (Finite 300)), (''Chloramines'', PyFloat (Finite 3)),
       (''Sulfate'', PyFloat (Finite 200)), (''Conductivity'', PyFloat (Finite 400)),
       (''Organic_carbon'', PyFloat (Finite 10)), (''Trihalomethanes'', PyFloat (Finite 50)),
       (''Turbidity'', PyFloat (Finite 3))]]
   \<and> map_of [(''ph'', PyFloat (Finite 7)), (''Hardness'', PyFloat (Finite 200)),
         (''Solids'', PyFloat (Finite 300)), (''Chloramines'', PyFloat (Finite 3)),
         (''Sulfate'', PyFloat (Finite 200)), (''Conductivity'', PyFloat (Finite 400)),
         (''Organic_carbon'', PyFloat (Finite 10)), (''Trihalomethanes'', PyFloat (Finite 50)),
         (''Turbidity'', PyFloat (Finite 3)), (''Prediction'', PyStr ''Safe''),
         (''Confidence'', PyStr ''75.0%''), (''Safe_Probability'', PyStr ''0.750''),
         (''Unsafe_Probability'', PyStr ''0.250''), (''Risk_Factors_Count'', PyInt 0),
         (''Risk_Factors'', PyStr ''None''), (''Timestamp'', PyStr ''2024-01-01 12:00:00'')]
        ''ph'' = Some (PyFloat (Finite 7))
   \<and> map_of [(''ph'', PyFloat (Finite 7)), (''Hardness'', PyFloat (Finite 200)),
         (''Solids'', PyFloat (Finite 300)), (''Chloramines'', PyFloat (Finite 3)),
         (''Sulfate'', PyFloat (Finite 200)), (''Conductivity'', PyFloat (Finite 400)),
         (''Organic_carbon'', PyFloat (Finite 10)), (''Trihalomethanes'', PyFloat (Finite 50)),
         (''Turbidity'', PyFloat (Finite 3)), (''Prediction'', PyStr ''Safe''),
         (''Confidence'', PyStr ''75.0%''), (''Safe_Probability'', PyStr ''0.750''),
         (''Unsafe_Probability'', PyStr ''0.250''), (''Risk_Factors_Count'', PyInt 0),
         (''Risk_Factors'', PyStr ''None''), (''Timestamp'', PyStr ''2024-01-01 12:00:00'')]
        ''Hardness'' = Some (PyFloat (Finite 200))
   \<and> map_of [(''ph'', PyFloat (Finite 7)), (''Hardness'', PyFloat (Finite 200)),
         (''Solids'', PyFloat (Finite 300)), (''Chloramines'', PyFloat (Finite 3)),
         (''Sulfate'', PyFloat (Finite 200)), (''Conductivity'', PyFloat (Finite 400)),
         (''Organic_carbon'', PyFloat (Finite 10)), (''Trihalomethanes'', PyFloat (Finite 50)),
         (''Turbidity'', PyFloat (Finite 3)), (''Prediction'', PyStr ''Safe''),
         (''Confidence'', PyStr ''75.0%''), (''Safe_Probability'', PyStr ''0.750''),
         (''Unsafe_Probability'', PyStr ''0.250''), (''Risk_Factors_Count'', PyInt 0),
         (''Risk_Factors'', PyStr ''None''), (''Timestamp'', PyStr ''2024-01-01 12:00:00'')]
        ''Solids'' = Some (PyFloat (Finite 300))
   \<and> map_of [(''ph'', PyFloat (Finite 7)), (''Hardness'', PyFloat (Finite 200)),
         (''Solids'', PyFloat (Finite 300)), (''Chloramines'', PyFloat (Finite 3)),
         (''Sulfate'', PyFloat (Finite 200)), (''Conductivity'', PyFloat (Finite 400)),
         (''Organic_carbon'', PyFloat (Finite 10)), (''Trihalomethanes'', PyFloat (Finite 50)),
         (''Turbidity'', PyFloat (Finite 3)), (''Prediction'', PyStr ''Safe''),
         (''Confidence'', PyStr ''75.0%''), (''Safe_Probability'', PyStr ''0.750''),
         (''Unsafe_Probability'', PyStr ''0.250''), (''Risk_Factors_Count'', PyInt 0),
         (''Risk_Factors'', PyStr ''None''), (''Timestamp'', PyStr ''2024-01-01 12:00:00'')]
        ''Chloramines'' = Some (PyFloat (Finite 3))
   \<and> map_of [(''ph'', PyFloat (Finite 7)), (''Hardness'', PyFloat (Finite 200)),
         (''Solids'', PyFloat (Finite 300)), (''Chloramines'', PyFloat (Finite 3)),
         (''Sulfate'', PyFloat (Finite 200)), (''Conductivity'', PyFloat (Finite 400)),
         (''Organic_carbon'', PyFloat (Finite 10)), (''Trihalomethanes'', PyFloat (Finite 50)),
         (''Turbidity'', PyFloat (Finite 3)), (''Prediction'', PyStr ''Safe''),
         (''Confidence'', PyStr ''75.0%''), (''Safe_Probability'', PyStr ''0.750''),
         (''Unsafe_Probability'', PyStr ''0.250''), (''Risk_Factors_Count'', PyInt 0),
         (''Risk_Factors'', PyStr ''None''), (''Timestamp'', PyStr ''2024-01-01 12:00:00'')]
        ''Sulfate'' = Some (PyFloat (Finite 200))
   \<and> map_of [(''ph'', PyFloat (Finite 7)), (''Hardness'', PyFloat (Finite 200)),
         (''Solids'', PyFloat (Finite 300)), (''Chloramines'', PyFloat (Finite 3)),
         (''Sulfate'', PyFloat (Finite 200)), (''Conductivity'', PyFloat (Finite 400)),
         (''Organic_carbon'', PyFloat (Finite 10)), (''Trihalomethanes'', PyFloat (Finite 50)),
         (''Turbidity'', PyFloat (Finite 3)), (''Prediction'', PyStr ''Safe''),
         (''Confidence'', PyStr ''75.0%''), (''Safe_Probability'', PyStr ''0.750''),
         (''Unsafe_Probability'', PyStr ''0.250''), (''Risk_Factors_Count'', PyInt 0),
         (''Risk_Factors'', PyStr ''None''), (''Timestamp'', PyStr ''2024-01-01 12:00:00'')]
        ''Conductivity'' = Some (PyFloat (Finite 400))
   \<and> map_of [(''ph'', PyFloat (Finite 7)), (''Hardness'', PyFloat (Finite 200)),
         (''Solids'', PyFloat (Finite 300)), (''Chloramines'', PyFloat (Finite 3)),
         (''Sulfate'', PyFloat (Finite 200)), (''Conductivity'', PyFloat (Finite 400)),
         (''Organic_carbon'', PyFloat (Finite 10)), (''Trihalomethanes'', PyFloat (Finite 50)),
         (''Turbidity'', PyFloat (Finite 3)), (''Prediction'', PyStr ''Safe''),
         (''Confidence'', PyStr ''75.0%''), (''Safe_Probability'', PyStr ''0.750''),
         (''Unsafe_Probability'', PyStr ''0.250''), (''Risk_Factors_Count'', PyInt 0),
         (''Risk_Factors'', PyStr ''None''), (''Timestamp'', PyStr ''2024-01-01 12:00:00'')]
        ''Organic_carbon'' = Some (PyFloat (Finite 10))
   \<and> map_of [(''ph'', PyFloat (Finite 7)), (''Hardness'', PyFloat (Finite 200)),
         (''Solids'', PyFloat (Finite 300)), (''Chloramines'', PyFloat (Finite 3)),
         (''Sulfate'', PyFloat (Finite 200)), (''Conductivity'', PyFloat (Finite 400)),
         (''Organic_carbon'', PyFloat (Finite 10)), (''Trihalomethanes'', PyFloat (Finite 50)),
         (''Turbidity'', PyFloat (Finite 3)), (''Prediction'', PyStr ''Safe''),
         (''Confidence'', PyStr ''75.0%''), (''Safe_Probability'', PyStr ''0.750''),
         (''Unsafe_Probability'', PyStr ''0.250''), (''Risk_Factors_Count'', PyInt 0),
         (''Risk_Factors'', PyStr ''None''), (''Timestamp'', PyStr ''2024-01-01 12:00:00'')]
        ''Trihalomethanes'' = Some (PyFloat (Finite 50))
   \<and> map_of [(''ph'', PyFloat (Finite 7)), (''Hardness'', PyFloat (Finite 200)),
         (''Solids'', PyFloat (Finite 300)), (''Chloramines'', PyFloat (Finite 3)),
         (''Sulfate'', PyFloat (Finite 200)), (''Conductivity'', PyFloat (Finite 400)),
         (''Organic_carbon'', PyFloat (Finite 10)), (''Trihalomethanes'', PyFloat (Finite 50)),
         (''Turbidity'', PyFloat (Finite 3)), (''Prediction'', PyStr ''Safe''),
         (''Confidence'', PyStr ''75.0%''), (''Safe_Probability'', PyStr ''0.750''),
         (''Unsafe_Probability'', PyStr ''0.250''), (''Risk_Factors_Count'', PyInt 0),
         (''Risk_Factors'', PyStr ''None''), (''Timestamp'', PyStr ''2024-01-01 12:00:00'')]
        ''Turbidity'' = Some (PyFloat (Finite 3))"
proof -
  let ?iv = "[(''ph'', PyFloat (Finite 7)), (''Hardness'', PyFloat (Finite 200)),
       (''Solids'', PyFloat (Finite 300)), (''Chloramines'', PyFloat (Finite 3)),
       (''Sulfate'', PyFloat (Finite 200)), (''Conductivity'', PyFloat (Finite 400)),
       (''Organic_carbon'', PyFloat (Finite 10)), (''Trihalomethanes'', PyFloat (Finite 50)),
       (''Turbidity'', PyFloat (Finite 3))]"
  let ?row = "[(''ph'', PyFloat (Finite 7)), (''Hardness'', PyFloat (Finite 200)),
         (''Solids'', PyFloat (Finite 300)), (''Chloramines'', PyFloat (Finite 3)),
         (''Sulfate'', PyFloat (Finite 200)), (''Conductivity'', PyFloat (Finite 400)),
         (''Organic_carbon'', PyFloat (Finite 10)), (''Trihalomethanes'', PyFloat (Finite 50)),
         (''Turbidity'', PyFloat (Finite 3)), (''Prediction'', PyStr ''Safe''),
         (''Confidence'', PyStr ''75.0%''), (''Safe_Probability'', PyStr ''0.750''),
         (''Unsafe_Probability'', PyStr ''0.250''), (''Risk_Factors_Count'', PyInt 0),
         (''Risk_Factors'', PyStr ''None''), (''Timestamp'', PyStr ''2024-01-01 12:00:00'')]"
  have run: "export_results Finite ''2024-01-01 12:00:00'' [?iv] 0 (PyInt 1) [Finite 0.25, Finite 0.75] []
               = ([?iv, ?row], Inr [?row])"
    by (simp add: export_eval)
  note kept = C7_input_kept [OF run]
  from kept have k: "take (length [?iv]) [?iv, ?row] = [?iv]" by (rule conjunct1)
  from kept obtain row where r: "[?row] = [row]"
      "\<forall>k \<in> set parameter_fields. map_of row k = map_of ([?iv] ! 0) k"
    by blast
  from r(1) have e: "row = ?row" by simp
  have all: "\<forall>k. k \<in> set parameter_fields \<longrightarrow> map_of ?row k = map_of ?iv k"
    using r(2) unfolding e by simp
  have f0: "map_of ?row ''ph'' = Some (PyFloat (Finite 7))"
    using all [rule_format, of "''ph''"] by (simp add: parameter_fields_def)
  have f1: "map_of ?row ''Hardness'' = Some (PyFloat (Finite 200))"
    using all [rule_format, of "''Hardness''"] by (simp add: parameter_fields_def)
  have f2: "map_of ?row ''Solids'' = Some (PyFloat (Finite 300))"
    using all [rule_format, of "''Solids''"] by (simp add: parameter_fields_def)
  have f3: "map_of ?row ''Chloramines'' = Some (PyFloat (Finite 3))"
    using all [rule_format, of "''Chloramines''"] by (simp add: parameter_fields_def)
  have f4: "map_of ?row ''Sulfate'' = Some (PyFloat (Finite 200))"
    using all [rule_format, of "''Sulfate''"] by (simp add: parameter_fields_def)
  have f5: "map_of ?row ''Conductivity'' = Some (PyFloat (Finite 400))"
    using all [rule_format, of "''Conductivity''"] by (simp add: parameter_fields_def)
  have f6: "map_of ?row ''Organic_carbon'' = Some (PyFloat (Finite 10))"
    using all [rule_format, of "''Organic_carbon''"] by (simp add: parameter_fields_def)
  have f7: "map_of ?row ''Trihalomethanes'' = Some (PyFloat (Finite 50))"
    using all [rule_format, of "''Trihalomethanes''"] by (simp add: parameter_fields_def)
  have f8: "map_of ?row ''Turbidity'' = Some (PyFloat (Finite 3))"
    using all [rule_format, of "''Turbidity''"] by (simp add: parameter_fields_def)
  show ?thesis by (intro conjI run k f0 f1 f2 f3 f4 f5 f6 f7 f8)
qed

subsection \<open>The label on the page and the label in the row\<close>

text \<open>
  Claim C9. \<open>render_recommendations\<close> opens the urgent track when the prediction equals
  0 and the maintenance track for every other value; \<open>export_results\<close> writes \<open>Safe\<close>
  when the prediction equals 1 and \<open>Unsafe\<close> for every other value. \<open>None\<close> equals
  neither 0 nor 1, so it gets the maintenance track and the label \<open>Unsafe\<close>.
\<close>

theorem C9_labels:
  "(py_eq_int p 0 \<longrightarrow>
      (\<exists>rest e. render_recommendations p rf iv [] = (StError immediate_actions_header # rest, e)
         \<and> (e = None \<longrightarrow> take 4 rest = map (\<lambda>e. StWrite (bullet e)) urgent_actions)))
   \<and> (\<not> py_eq_int p 0 \<longrightarrow>
      (\<exists>rest e. render_recommendations p rf iv [] = (StSuccess water_safe_header # rest, e)
         \<and> (e = None \<longrightarrow> take 5 rest = StWrite maintenance_header # map (\<lambda>e. StWrite (bullet e)) opening_tips)))
   \<and> (\<forall>h' df. export_results fl ts h input_values p prob risks = (h', Inr df) \<longrightarrow>
        (\<exists>row. df = [row]
           \<and> map_of row ''Prediction'' = Some (PyStr (if py_eq_int p 1 then ''Safe'' else ''Unsafe''))))
   \<and> \<not> py_eq_int PyNone 0 \<and> \<not> py_eq_int PyNone 1
   \<and> py_eq_int (PyInt i) 0 = (i = 0) \<and> py_eq_int (PyInt i) 1 = (i = 1)"
proof (intro conjI allI impI)
  assume u: "py_eq_int p 0"
  show "\<exists>rest e. render_recommendations p rf iv [] = (StError immediate_actions_header # rest, e)
         \<and> (e = None \<longrightarrow> take 4 rest = map (\<lambda>e. StWrite (bullet e)) urgent_actions)"
  proof (cases "unsafe_recommendations rf iv")
    case (Inl e)
    then show ?thesis using u by (simp add: render_unsafe_raises)
  next
    case (Inr recs)
    from Inr obtain r1 where "append_ph rf iv urgent_actions = Inr r1"
      and "recs = r1
          @ (if any_risk ''Chloramines'' rf then [rec_chloramines] else [])
          @ (if any_risk ''Trihalomethanes'' rf then [rec_trihalomethanes] else [])
          @ (if any_risk ''Turbidity'' rf then [rec_turbidity] else [])
          @ (if any_risk ''Solids'' rf then [rec_solids] else [])"
      by (auto simp: unsafe_recommendations_def append_if_risk_eq split: sum.splits)
    with append_ph_cases [of rf iv urgent_actions r1]
    have "\<exists>more. recs = urgent_actions @ more" by auto
    then obtain more where "recs = urgent_actions @ more" ..
    moreover have "length urgent_actions = 4" by (simp add: urgent_actions_def)
    ultimately have "take 4 (map (\<lambda>e. StWrite (bullet e)) recs) = map (\<lambda>e. StWrite (bullet e)) urgent_actions"
      and "4 \<le> length recs"
      by simp_all
    then show ?thesis using u Inr by (simp add: render_unsafe)
  qed
next
  assume s: "\<not> py_eq_int p 0"
  show "\<exists>rest e. render_recommendations p rf iv [] = (StSuccess water_safe_header # rest, e)
         \<and> (e = None \<longrightarrow> take 5 rest = StWrite maintenance_header # map (\<lambda>e. StWrite (bullet e)) opening_tips)"
  proof (cases "maintenance_tips iv")
    case (Inl e)
    then show ?thesis using s by (simp add: render_safe_raises)
  next
    case (Inr tips)
    then have "\<exists>more. tips = opening_tips @ more"
      by (auto simp: maintenance_tips_def Let_def split: sum.splits if_splits)
    then obtain more where "tips = opening_tips @ more" ..
    moreover have "length opening_tips = 4" by (simp add: opening_tips_def)
    ultimately have "take 4 (map (\<lambda>e. StWrite (bullet e)) tips) = map (\<lambda>e. StWrite (bullet e)) opening_tips"
      and "4 \<le> length tips"
      by simp_all
    then show ?thesis using s Inr by (simp add: render_safe)
  qed
next
  fix h' df
  assume "export_results fl ts h input_values p prob risks = (h', Inr df)"
  then obtain fields where f: "derived_fields fl ts p prob risks = Inr fields"
    and df: "df = [dict_update (h ! input_values) fields]"
    using export_results_Inr by blast
  show "\<exists>row. df = [row]
           \<and> map_of row ''Prediction'' = Some (PyStr (if py_eq_int p 1 then ''Safe'' else ''Unsafe''))"
    using derived_fields_lookup(1) [OF f] by (simp add: df map_of_dict_update map_add_def)
qed simp_all

text \<open>
  Claim C9 for the prediction \<open>None\<close> on scenario A of the specification: the page shows
  the maintenance track, the exported row says \<open>Unsafe\<close>.
\<close>

theorem C9_witness:
  "\<not> py_eq_int PyNone 0
   \<and> render_recommendations PyNone []
        [(''ph'', PyFloat (Finite 7)), (''Hardness'', PyFloat (Finite 200)),
         (''Solids'', PyFloat (Finite 300)), (''Chloramines'', PyFloat (Finite 3)),
         (''Sulfate'', PyFloat (Finite 200)), (''Conductivity'', PyFloat (Finite 400)),
         (''Organic_carbon'', PyFloat (Finite 10)), (''Trihalomethanes'', PyFloat (Finite 50)),
         (''Turbidity'', PyFloat (Finite 3))] []
      = ([StSuccess water_safe_header, StWrite maintenance_header,
          StWrite (bullet tip_regular_monitoring), StWrite (bullet tip_system_maintenance),
          StWrite (bullet tip_plumbing_check), StWrite (bullet tip_keep_records),
          StWrite (bullet tip_chloramines),
          StExpander guide_label [StDataframe treatment_df]], None)
   \<and> export_results Finite ''2024-01-01 12:00:00''
        [[(''ph'', PyFloat (Finite 7)), (''Hardness'', PyFloat (Finite 200)),
         (''Solids'', PyFloat (Finite 300)), (''Chloramines'', PyFloat (Finite 3)),
         (''Sulfate'', PyFloat (Finite 200)), (''Conductivity'', PyFloat (Finite 400)),
         (''Organic_carbon'', PyFloat (Finite 10)), (''Trihalomethanes'', PyFloat (Finite 50)),
         (''Turbidity'', PyFloat (Finite 3))]]
        0 PyNone [Finite 0.25, Finite 0.75] []
      = ([[(''ph'', PyFloat (Finite 7)), (''Hardness'', PyFloat (Finite 200)),
         (''Solids'', PyFloat (Finite 300)), (''Chloramines'', PyFloat (Finite 3)),
         (''Sulfate'', PyFloat (Finite 200)), (''Conductivity'', PyFloat (Finite 400)),
         (''Organic_carbon'', PyFloat (Finite 10)), (''Trihalomethanes'', PyFloat (Finite 50)),
         (''Turbidity'', PyFloat (Finite 3))],
          [(''ph'', PyFloat (Finite 7)), (''Hardness'', PyFloat (Finite 200)),
           (''Solids'', PyFloat (Finite 300)), (''Chloramines'', PyFloat (Finite 3)),
           (''Sulfate'', PyFloat (Finite 200)), (''Conductivity'', PyFloat (Finite 400)),
           (''Organic_carbon'', PyFloat (Finite 10)), (''Trihalomethanes'', PyFloat (Finite 50)),
           (''Turbidity'', PyFloat (Finite 3)), (''Prediction'', PyStr ''Unsafe''),
           (''Confidence'', PyStr ''75.0%''), (''Safe_Probability'', PyStr ''0.750''),
           (''Unsafe_Probability'', PyStr ''0.250''), (''Risk_Factors_Count'', PyInt 0),
           (''Risk_Factors'', PyStr ''None''), (''Timestamp'', PyStr ''2024-01-01 12:00:00'')]],
         Inr [[(''ph'', PyFloat (Finite 7)), (''Hardness'', PyFloat (Finite 200)),
           (''Solids'', PyFloat (Finite 300)), (''Chloramines'', PyFloat (Finite 3)),
           (''Sulfate'', PyFloat (Finite 200)), (''Conductivity'', PyFloat (Finite 400)),
           (''Organic_carbon'', PyFloat (Finite 10)), (''Trihalomethanes'', PyFloat (Finite 50)),
           (''Turbidity'', PyFloat (Finite 3)), (''Prediction'', PyStr ''Unsafe''),
           (''Confidence'', PyStr ''75.0%''), (''Safe_Probability'', PyStr ''0.750''),
           (''Unsafe_Probability'', PyStr ''0.250''), (''Risk_Factors_Count'', PyInt 0),
           (''Risk_Factors'', PyStr ''None''), (''Timestamp'', PyStr ''2024-01-01 12:00:00'')]])
   \<and> map_of [(''ph'', PyFloat (Finite 7)), (''Hardness'', PyFloat (Finite 200)),
           (''Solids'', PyFloat (Finite 300)), (''Chloramines'', PyFloat (Finite 3)),
           (''Sulfate'', PyFloat (Finite 200)), (''Conductivity'', PyFloat (Finite 400)),
           (''Organic_carbon'', PyFloat (Finite 10)), (''Trihalomethanes'', PyFloat (Finite 50)),
           (''Turbidity'', PyFloat (Finite 3)), (''Prediction'', PyStr ''Unsafe''),
           (''Confidence'', PyStr ''75.0%''), (''Safe_Probability'', PyStr ''0.750''),
           (''Unsafe_Probability'', PyStr ''0.250''), (''Risk_Factors_Count'', PyInt 0),
           (''Risk_Factors'', PyStr ''None''), (''Timestamp'', PyStr ''2024-01-01 12:00:00'')]
        ''Prediction'' = Some (PyStr ''Unsafe'')"
proof -
  let ?iv = "[(''ph'', PyFloat (Finite 7)), (''Hardness'', PyFloat (Finite 200)),
         (''Solids'', PyFloat (Finite 300)), (''Chloramines'', PyFloat (Finite 3)),
         (''Sulfate'', PyFloat (Finite 200)), (''Conductivity'', PyFloat (Finite 400)),
         (''Organic_carbon'', PyFloat (Finite 10)), (''Trihalomethanes'', PyFloat (Finite 50)),
         (''Turbidity'', PyFloat (Finite 3))]"
  let ?row = "[(''ph'', PyFloat (Finite 7)), (''Hardness'', PyFloat (Finite 200)),
           (''Solids'', PyFloat (Finite 300)), (''Chloramines'', PyFloat (Finite 3)),
           (''Sulfate'', PyFloat (Finite 200)), (''Conductivity'', PyFloat (Finite 400)),
           (''Organic_carbon'', PyFloat (Finite 10)), (''Trihalomethanes'', PyFloat (Finite 50)),
           (''Turbidity'', PyFloat (Finite 3)), (''Prediction'', PyStr ''Unsafe''),
           (''Confidence'', PyStr ''75.0%''), (''Safe_Probability'', PyStr ''0.750''),
           (''Unsafe_Probability'', PyStr ''0.250''), (''Risk_Factors_Count'', PyInt 0),
           (''Risk_Factors'', PyStr ''None''), (''Timestamp'', PyStr ''2024-01-01 12:00:00'')]"
  let ?calls = "[StSuccess water_safe_header, StWrite maintenance_header,
          StWrite (bullet tip_regular_monitoring), StWrite (bullet tip_system_maintenance),
          StWrite (bullet tip_plumbing_check), StWrite (bullet tip_keep_records),
          StWrite (bullet tip_chloramines),
          StExpander guide_label [StDataframe treatment_df]]"
  have n: "\<not> py_eq_int PyNone 0" by simp
  have page: "render_recommendations PyNone [] ?iv [] = (?calls, None)"
    by (simp add: render_recommendations_def maintenance_tips_def py_getitem_def py_gt_num_def
        float_gt_def st_success_def st_write_def treatment_guide_def opening_tips_def)
  have run: "export_results Finite ''2024-01-01 12:00:00'' [?iv] 0 PyNone [Finite 0.25, Finite 0.75] []
               = ([?iv, ?row], Inr [?row])"
    by (simp add: export_eval)
  note labels = C9_labels [of PyNone "[]" ?iv Finite "''2024-01-01 12:00:00''" "[?iv]" 0 "[Finite 0.25, Finite 0.75]" "[]" 0]
  from labels have "\<forall>h' df. export_results Finite ''2024-01-01 12:00:00'' [?iv] 0 PyNone [Finite 0.25, Finite 0.75] [] = (h', Inr df) \<longrightarrow>
        (\<exists>row. df = [row]
           \<and> map_of row ''Prediction'' = Some (PyStr (if py_eq_int PyNone 1 then ''Safe'' else ''Unsafe'')))"
    by (elim conjE)
  with run obtain row where r: "[?row] = [row]"
      "map_of row ''Prediction'' = Some (PyStr (if py_eq_int PyNone 1 then ''Safe'' else ''Unsafe''))"
    by blast
  from r(1) have e: "row = ?row" by simp
  have l: "map_of ?row ''Prediction'' = Some (PyStr ''Unsafe'')"
    using r(2) unfolding e by simp
  show ?thesis by (intro conjI n page run l)
qed
end
